theory Spec2Isabelle
  imports Main "HOL-Library.Word"
begin

section \<open>Panics as values\<close>

text \<open>
  Every panic of the Go sources is a value of \<open>error\<close>: \<open>Errorf\<close> is the \<open>errorf\<close> of
  package jit and \<open>Xerrorf\<close> the \<open>xerrorf\<close> of package xreflect (both carry their format
  string), \<open>RuntimePanic\<close> is a panic raised by the Go runtime itself (an index out of
  range, a nil dereference, a failed type assertion) and \<open>ReflectPanic\<close> one raised by
  the standard packages reflect and go/types.

  Modelled from the spec: \<open>errorf\<close> and \<open>xerrorf\<close> are declared outside the given
  sources; each call signals its error at once and does not return.
\<close>

datatype error =
    Errorf string
  | Xerrorf string
  | RuntimePanic string
  | ReflectPanic string

text \<open>Sequencing: the second step runs only if the first did not panic.\<close>

definition andThen :: "error + 'a \<Rightarrow> ('a \<Rightarrow> error + 'b) \<Rightarrow> error + 'b" where
  "andThen m f = (case m of Inl e \<Rightarrow> Inl e | Inr x \<Rightarrow> f x)"

section \<open>Package jit: the virtual register code buffer (code.go)\<close>

text \<open>
  Modelled from the spec: the declarations of \<open>Op1\<close>, \<open>Op2\<close>, \<open>Inst1\<close>, \<open>Inst2\<close>,
  \<open>asm.Op2Misc\<close>, \<open>SoftRegId\<close>, \<open>Kind\<close>, \<open>SoftReg\<close>, \<open>AsmCode\<close> and \<open>Expr\<close> are not
  part of code.go. An operation is its numeric code; among the single-operand
  instructions \<open>NOP\<close> is the designated no-op marker and among the two-operand
  instructions \<open>ASSIGN\<close> is the designated assignment. A token of the stream is an
  operation code, a soft register id, a type category or any other raw token. An
  \<open>Expr\<close> is a raw token, a soft register, an unlowered unary or binary expression
  node, or anything else (\<open>ExprOther\<close>, which includes the nil interface).
\<close>

type_synonym SoftRegId = nat
type_synonym Kind = nat

datatype Op1 = Op1 nat
datatype Op2 = Op2 nat
datatype Op2Misc = Op2Misc nat
datatype Inst1 = NOP | Inst1 nat
datatype Inst2 = ASSIGN | Inst2 nat

datatype AsmCode =
    AsmOp1 Op1
  | AsmOp2 Op2
  | AsmInst1 Inst1
  | AsmInst2 Inst2
  | AsmOp2Misc Op2Misc
  | AsmSoftRegId SoftRegId
  | AsmKind Kind
  | AsmRaw nat

record SoftReg =
  reg_id :: SoftRegId
  reg_kind :: Kind

datatype Expr =
    ExprAsmCode AsmCode
  | ExprSoftReg SoftReg
  | Expr1 Op1 Expr
  | Expr2 Op2 Expr Expr
  | ExprOther

type_synonym Code = "AsmCode list"

text \<open>
  \<open>asmArg\<close>: the type switch of the source, in its order. Both \<open>errorf\<close> calls panic,
  so the final \<open>return nil\<close> is never reached.
\<close>

fun asmArg :: "Expr \<Rightarrow> error + AsmCode" where
  "asmArg (ExprAsmCode e) = Inr e"
| "asmArg (ExprSoftReg e) = Inr (AsmSoftRegId (reg_id e))"
| "asmArg (Expr1 op x) =
     Inl (Errorf ''internal error: cannot assemble %T, must be compiled first: %v'')"
| "asmArg (Expr2 op x y) =
     Inl (Errorf ''internal error: cannot assemble %T, must be compiled first: %v'')"
| "asmArg ExprOther = Inl (Errorf ''unknown Expr type %T: %v'')"

text \<open>
  The methods of \<open>Code\<close> update the buffer behind the pointer \<open>c\<close>; the model takes the
  buffer and returns the new one. A panic of \<open>asmArg\<close> happens while the arguments of
  \<open>append\<close> are evaluated, before \<open>*c\<close> is assigned, so \<open>Inl\<close> means: panicked, buffer
  as it was.
\<close>

definition Code_Init :: "Code \<Rightarrow> Code" where
  "Code_Init c = []"

definition Code_Op1 :: "Op1 \<Rightarrow> Expr \<Rightarrow> SoftReg \<Rightarrow> Code \<Rightarrow> error + Code" where
  "Code_Op1 op src dst c =
     (case asmArg src of
        Inl e \<Rightarrow> Inl e
      | Inr asrc \<Rightarrow> Inr (c @ [AsmOp1 op, asrc, AsmSoftRegId (reg_id dst)]))"

definition Code_Op2 :: "Op2 \<Rightarrow> Expr \<Rightarrow> Expr \<Rightarrow> SoftReg \<Rightarrow> Code \<Rightarrow> error + Code" where
  "Code_Op2 op a b dst c =
     (case asmArg a of
        Inl e \<Rightarrow> Inl e
      | Inr aa \<Rightarrow>
          (case asmArg b of
             Inl e \<Rightarrow> Inl e
           | Inr ab \<Rightarrow> Inr (c @ [AsmOp2 op, aa, ab, AsmSoftRegId (reg_id dst)])))"

definition Code_Inst1 :: "Inst1 \<Rightarrow> Expr \<Rightarrow> Code \<Rightarrow> error + Code" where
  "Code_Inst1 inst dst c =
     (if inst \<noteq> NOP then
        (case asmArg dst of
           Inl e \<Rightarrow> Inl e
         | Inr adst \<Rightarrow> Inr (c @ [AsmInst1 inst, adst]))
      else Inr c)"

definition Code_Inst2 :: "Inst2 \<Rightarrow> Expr \<Rightarrow> Expr \<Rightarrow> Code \<Rightarrow> error + Code" where
  "Code_Inst2 inst src dst c =
     (case asmArg src of
        Inl e \<Rightarrow> Inl e
      | Inr asrc \<Rightarrow>
          (case asmArg dst of
             Inl e \<Rightarrow> Inl e
           | Inr adst \<Rightarrow>
               (if inst \<noteq> ASSIGN \<or> asrc \<noteq> adst then Inr (c @ [AsmInst2 inst, asrc, adst])
                else Inr c)))"

definition Code_SoftReg :: "Op2Misc \<Rightarrow> SoftRegId \<Rightarrow> Kind \<Rightarrow> Code \<Rightarrow> SoftReg \<times> Code" where
  "Code_SoftReg op i k c =
     (\<lparr>reg_id = i, reg_kind = k\<rparr>, c @ [AsmOp2Misc op, AsmSoftRegId i, AsmKind k])"

text \<open>The operands that are already lowered: a raw token or a soft register.\<close>

fun lowered :: "Expr \<Rightarrow> bool" where
  "lowered (ExprAsmCode e) = True"
| "lowered (ExprSoftReg e) = True"
| "lowered e = False"

section \<open>The standard packages reflect and go/types, as far as the sources use them\<close>

text \<open>
  The kinds of package reflect. The runtime descriptor \<open>reflect.Type\<close> and the static
  descriptor \<open>types.Type\<close> are two separate trees; a function-shaped runtime descriptor
  lists all its runtime parameters (a receiver is the first of them), a static
  \<open>Signature\<close> keeps the receiver apart from the declared parameters.
\<close>

datatype reflect_Kind =
    Invalid | Bool
  | Int' | Int8 | Int16 | Int32 | Int64
  | Uint | Uint8 | Uint16 | Uint32 | Uint64 | Uintptr
  | Float32 | Float64 | Complex64 | Complex128
  | Array | Chan | Func | Interface | Map | Ptr | Slice | String | Struct | UnsafePointer

datatype reflect_Type =
    RBasic reflect_Kind
  | RNamed string reflect_Type
  | RArray nat reflect_Type
  | RChan reflect_Type
  | RFunc "reflect_Type list" "reflect_Type list" bool
  | RInterface "string list"
  | RMap reflect_Type reflect_Type
  | RPtr reflect_Type
  | RSlice reflect_Type
  | RStruct "reflect_Type list"

datatype types_Type =
    Basic reflect_Kind
  | Named string types_Type
  | ArrayOf nat types_Type
  | ChanOf types_Type
  | Signature "types_Var option" "types_Var list" "types_Var list" bool
  | InterfaceOf "string list"
  | MapOf types_Type types_Type
  | Pointer types_Type
  | SliceOf types_Type
  | StructOf "types_Type list"
and types_Var = NewParam string types_Type

fun Var_Type :: "types_Var \<Rightarrow> types_Type" where
  "Var_Type (NewParam name t) = t"

fun reflect_Kind_of :: "reflect_Type \<Rightarrow> reflect_Kind" where
  "reflect_Kind_of (RBasic k) = k"
| "reflect_Kind_of (RNamed name t) = reflect_Kind_of t"
| "reflect_Kind_of (RArray n t) = Array"
| "reflect_Kind_of (RChan t) = Chan"
| "reflect_Kind_of (RFunc ins outs variadic) = Func"
| "reflect_Kind_of (RInterface ms) = Interface"
| "reflect_Kind_of (RMap k t) = Map"
| "reflect_Kind_of (RPtr t) = Ptr"
| "reflect_Kind_of (RSlice t) = Slice"
| "reflect_Kind_of (RStruct fs) = Struct"

fun reflect_underlying :: "reflect_Type \<Rightarrow> reflect_Type" where
  "reflect_underlying (RNamed name t) = reflect_underlying t"
| "reflect_underlying t = t"

text \<open>\<open>Underlying\<close> of go/types: a named type gives the type it was declared as.\<close>

fun Underlying :: "types_Type \<Rightarrow> types_Type" where
  "Underlying (Named name t) = Underlying t"
| "Underlying t = t"

text \<open>
  A Go slice read at an index: outside \<open>[0, len)\<close> the runtime panics. \<open>Tuple.At\<close>,
  \<open>reflect.Type.In\<close> and \<open>reflect.Type.Out\<close> all index a slice this way.
\<close>

definition index :: "'a list \<Rightarrow> int \<Rightarrow> error + 'a" where
  "index xs i =
     (if 0 \<le> i \<and> i < int (length xs) then Inr (xs ! nat i)
      else Inl (RuntimePanic ''index out of range''))"

definition Tuple_Len :: "types_Var list \<Rightarrow> int" where
  "Tuple_Len vars = int (length vars)"

definition Tuple_At :: "types_Var list \<Rightarrow> int \<Rightarrow> error + types_Var" where
  "Tuple_At vars i = index vars i"

definition reflect_In :: "reflect_Type \<Rightarrow> int \<Rightarrow> error + reflect_Type" where
  "reflect_In t i =
     (case reflect_underlying t of
        RFunc ins outs variadic \<Rightarrow> index ins i
      | _ \<Rightarrow> Inl (ReflectPanic ''reflect: In of non-func type''))"

definition reflect_Out :: "reflect_Type \<Rightarrow> int \<Rightarrow> error + reflect_Type" where
  "reflect_Out t i =
     (case reflect_underlying t of
        RFunc ins outs variadic \<Rightarrow> index outs i
      | _ \<Rightarrow> Inl (ReflectPanic ''reflect: Out of non-func type''))"

definition reflect_NumIn :: "reflect_Type \<Rightarrow> error + int" where
  "reflect_NumIn t =
     (case reflect_underlying t of
        RFunc ins outs variadic \<Rightarrow> Inr (int (length ins))
      | _ \<Rightarrow> Inl (ReflectPanic ''reflect: NumIn of non-func type''))"

definition reflect_IsVariadic :: "reflect_Type \<Rightarrow> error + bool" where
  "reflect_IsVariadic t =
     (case reflect_underlying t of
        RFunc ins outs variadic \<Rightarrow> Inr variadic
      | _ \<Rightarrow> Inl (ReflectPanic ''reflect: IsVariadic of non-func type''))"

text \<open>
  \<open>reflect.FuncOf\<close> refuses a variadic function whose last parameter is not a slice and
  a function with more than 128 parameters and results together. \<open>types.NewSignature\<close>
  refuses a variadic signature whose last declared parameter is not an unnamed slice.
\<close>

definition reflect_FuncOf ::
  "reflect_Type list \<Rightarrow> reflect_Type list \<Rightarrow> bool \<Rightarrow> error + reflect_Type" where
  "reflect_FuncOf ins outs variadic =
     (if variadic \<and> (ins = [] \<or> reflect_Kind_of (last ins) \<noteq> Slice) then
        Inl (ReflectPanic ''reflect.FuncOf: last arg of variadic func must be slice'')
      else if 128 < length ins + length outs then
        Inl (ReflectPanic ''reflect.FuncOf: too many arguments'')
      else Inr (RFunc ins outs variadic))"

fun is_SliceOf :: "types_Type \<Rightarrow> bool" where
  "is_SliceOf (SliceOf t) = True"
| "is_SliceOf t = False"

definition NewSignature ::
  "types_Var option \<Rightarrow> types_Var list \<Rightarrow> types_Var list \<Rightarrow> bool \<Rightarrow> error + types_Type" where
  "NewSignature recv params results variadic =
     (if variadic \<and> params = [] then
        Inl (ReflectPanic ''types.NewSignature: variadic function must have at least one parameter'')
      else if variadic \<and> \<not> is_SliceOf (Var_Type (last params)) then
        Inl (ReflectPanic ''types.NewSignature: variadic parameter must be of unnamed slice type'')
      else Inr (Signature recv params results variadic))"

section \<open>Package xreflect: function and method types (type.go)\<close>

text \<open>
  Modelled from the spec: the struct \<open>xtype\<close>, the \<open>Universe\<close>, \<open>Kind\<close>,
  \<open>underlying\<close>, \<open>MakeType\<close>, \<open>toGoTuple\<close>, \<open>toReflectTypes\<close>, \<open>toGoParam\<close> and the
  global \<open>universe\<close> are declared outside type.go. A type pairs a static descriptor with a
  runtime descriptor, knows its category and the universe that owns it. A universe is
  known by its identity only; the default global universe is \<open>universe_global\<close>.
  \<open>MakeType\<close> pairs the two descriptors under the universe it is called on, the category
  being that of the static descriptor (its cache is not modelled). A \<open>Type\<close> is an
  interface value, so it may be nil: \<open>xtype option\<close>. The helpers \<open>toGoTuple\<close>,
  \<open>toReflectTypes\<close> and \<open>toGoParam\<close> read the static, respectively runtime, descriptor
  of each type in turn; on a nil \<open>Type\<close> that is a nil dereference.
\<close>

datatype Universe = Universe nat

definition universe_global :: Universe where
  "universe_global = Universe 0"

record xtype =
  kind :: reflect_Kind
  gtype :: types_Type
  rtype :: reflect_Type
  universe :: Universe

type_synonym Type = "xtype option"

fun gtypeToKind :: "types_Type \<Rightarrow> reflect_Kind" where
  "gtypeToKind (Basic k) = k"
| "gtypeToKind (Named name t) = gtypeToKind t"
| "gtypeToKind (ArrayOf n t) = Array"
| "gtypeToKind (ChanOf t) = Chan"
| "gtypeToKind (Signature recv params results variadic) = Func"
| "gtypeToKind (InterfaceOf ms) = Interface"
| "gtypeToKind (MapOf k t) = Map"
| "gtypeToKind (Pointer t) = Ptr"
| "gtypeToKind (SliceOf t) = Slice"
| "gtypeToKind (StructOf fs) = Struct"

definition MakeType :: "Universe \<Rightarrow> types_Type \<Rightarrow> reflect_Type \<Rightarrow> xtype" where
  "MakeType v g r = \<lparr>kind = gtypeToKind g, gtype = g, rtype = r, universe = v\<rparr>"

definition Kind :: "xtype \<Rightarrow> reflect_Kind" where
  "Kind t = kind t"

definition underlying :: "xtype \<Rightarrow> types_Type" where
  "underlying t = Underlying (gtype t)"

fun toGoParam :: "Type \<Rightarrow> error + types_Var" where
  "toGoParam None = Inl (RuntimePanic ''nil pointer dereference'')"
| "toGoParam (Some t) = Inr (NewParam [] (gtype t))"

fun toGoTuple :: "Type list \<Rightarrow> error + types_Var list" where
  "toGoTuple [] = Inr []"
| "toGoTuple (t # ts) =
     (case toGoParam t of
        Inl e \<Rightarrow> Inl e
      | Inr va \<Rightarrow> (case toGoTuple ts of Inl e \<Rightarrow> Inl e | Inr vars \<Rightarrow> Inr (va # vars)))"

fun toReflectTypes :: "Type list \<Rightarrow> error + reflect_Type list" where
  "toReflectTypes [] = Inr []"
| "toReflectTypes (None # ts) = Inl (RuntimePanic ''nil pointer dereference'')"
| "toReflectTypes (Some t # ts) =
     (case toReflectTypes ts of Inl e \<Rightarrow> Inl e | Inr rts \<Rightarrow> Inr (rtype t # rts))"

text \<open>
  The type assertion \<open>x.(*types.Signature)\<close> of the accessors: it panics unless the
  static descriptor is a signature.
\<close>

datatype signature =
  Sig (sig_Recv: "types_Var option") (sig_Params: "types_Var list")
      (sig_Results: "types_Var list") (sig_Variadic: bool)

fun asSignature :: "types_Type \<Rightarrow> error + signature" where
  "asSignature (Signature recv params results variadic) = Inr (Sig recv params results variadic)"
| "asSignature t = Inl (RuntimePanic ''interface conversion: types.Type is not *types.Signature'')"

text \<open>The accessors, each with the check of the source first.\<close>

definition IsMethod :: "xtype \<Rightarrow> error + bool" where
  "IsMethod t =
     (if Kind t \<noteq> Func then Inl (Xerrorf ''IsMethod of non-func type %v'')
      else case asSignature (gtype t) of
             Inl e \<Rightarrow> Inl e
           | Inr g \<Rightarrow> Inr (sig_Recv g \<noteq> None))"

definition IsVariadic :: "xtype \<Rightarrow> error + bool" where
  "IsVariadic t =
     (if Kind t \<noteq> Func then Inl (Xerrorf ''In of non-func type %v'')
      else reflect_IsVariadic (rtype t))"

definition In :: "xtype \<Rightarrow> int \<Rightarrow> error + xtype" where
  "In t i =
     (if Kind t \<noteq> Func then Inl (Xerrorf ''In of non-func type %v'')
      else case asSignature (underlying t) of
             Inl e \<Rightarrow> Inl e
           | Inr g \<Rightarrow>
               (case Tuple_At (sig_Params g) i of
                  Inl e \<Rightarrow> Inl e
                | Inr va \<Rightarrow>
                    (case reflect_In (rtype t) (if sig_Recv g \<noteq> None then i + 1 else i) of
                       Inl e \<Rightarrow> Inl e
                     | Inr r \<Rightarrow> Inr (MakeType (universe t) (Var_Type va) r))))"

definition NumIn :: "xtype \<Rightarrow> error + int" where
  "NumIn t =
     (if Kind t \<noteq> Func then Inl (Xerrorf ''NumIn of non-func type %v'')
      else case asSignature (underlying t) of
             Inl e \<Rightarrow> Inl e
           | Inr g \<Rightarrow> Inr (Tuple_Len (sig_Params g)))"

definition NumOut :: "xtype \<Rightarrow> error + int" where
  "NumOut t =
     (if Kind t \<noteq> Func then Inl (Xerrorf ''NumOut of non-func type %v'')
      else case asSignature (underlying t) of
             Inl e \<Rightarrow> Inl e
           | Inr g \<Rightarrow> Inr (Tuple_Len (sig_Results g)))"

definition Out :: "xtype \<Rightarrow> int \<Rightarrow> error + xtype" where
  "Out t i =
     (if Kind t \<noteq> Func then Inl (Xerrorf ''Out of non-func type %v'')
      else case asSignature (underlying t) of
             Inl e \<Rightarrow> Inl e
           | Inr g \<Rightarrow>
               (case Tuple_At (sig_Results g) i of
                  Inl e \<Rightarrow> Inl e
                | Inr va \<Rightarrow>
                    (case reflect_Out (rtype t) i of
                       Inl e \<Rightarrow> Inl e
                     | Inr r \<Rightarrow> Inr (MakeType (universe t) (Var_Type va) r))))"

definition Recv :: "xtype \<Rightarrow> error + Type" where
  "Recv t =
     (if Kind t \<noteq> Func then Inl (Xerrorf ''Recv of non-func type %v'')
      else case asSignature (underlying t) of
             Inl e \<Rightarrow> Inl e
           | Inr g \<Rightarrow>
               (case sig_Recv g of
                  None \<Rightarrow> Inr None
                | Some va \<Rightarrow>
                    (case reflect_In (rtype t) 0 of
                       Inl e \<Rightarrow> Inl e
                     | Inr r \<Rightarrow> Inr (Some (MakeType (universe t) (Var_Type va) r)))))"

text \<open>
  \<open>Universe.MethodOf\<close>: the four conversions, the receiver prepended to the runtime
  parameters and turned into the static receiver, then the two constructors.
\<close>

definition Universe_MethodOf ::
  "Universe \<Rightarrow> Type \<Rightarrow> Type list \<Rightarrow> Type list \<Rightarrow> bool \<Rightarrow> error + xtype" where
  "Universe_MethodOf v recv ins outs variadic =
     andThen (toGoTuple ins) (\<lambda>gin.
     andThen (toGoTuple outs) (\<lambda>gout.
     andThen (toReflectTypes ins) (\<lambda>rin.
     andThen (toReflectTypes outs) (\<lambda>rout.
     andThen (case recv of
                None \<Rightarrow> Inr (rin, None)
              | Some r \<Rightarrow> andThen (toGoParam recv) (\<lambda>grecv. Inr (rtype r # rin, Some grecv)))
       (\<lambda>(rin', grecv).
     andThen (NewSignature grecv gin gout variadic) (\<lambda>g.
     andThen (reflect_FuncOf rin' rout variadic) (\<lambda>r.
     Inr (MakeType v g r))))))))"

definition Universe_FuncOf ::
  "Universe \<Rightarrow> Type list \<Rightarrow> Type list \<Rightarrow> bool \<Rightarrow> error + xtype" where
  "Universe_FuncOf v ins outs variadic = Universe_MethodOf v None ins outs variadic"

text \<open>
  The package-level \<open>MethodOf\<close>: the chain of tests of the source picks the universe,
  looking at the receiver, at \<open>in[0]\<close> and at \<open>out[0]\<close> only.
\<close>

definition MethodOf :: "Type \<Rightarrow> Type list \<Rightarrow> Type list \<Rightarrow> bool \<Rightarrow> error + xtype" where
  "MethodOf recv ins outs variadic =
     (let v = (case recv of
                 Some r \<Rightarrow> universe r
               | None \<Rightarrow>
                   (case ins of
                      Some t # _ \<Rightarrow> universe t
                    | _ \<Rightarrow>
                        (case outs of
                           Some t # _ \<Rightarrow> universe t
                         | _ \<Rightarrow> universe_global)))
      in Universe_MethodOf v recv ins outs variadic)"

definition FuncOf :: "Type list \<Rightarrow> Type list \<Rightarrow> bool \<Rightarrow> error + xtype" where
  "FuncOf ins outs variadic = MethodOf None ins outs variadic"

section \<open>Package reflect: values, as far as the assignment compiler uses them\<close>

text \<open>
  The payload of a \<open>reflect.Value\<close>. A signed integer is read as the \<open>int64\<close> that
  \<open>Int()\<close> returns, an unsigned one as the \<open>uint64\<close> of \<open>Uint()\<close>, a float as the
  \<open>float64\<close> of \<open>Float()\<close> (its 64 bits) and a complex number as the two halves of the
  \<open>complex128\<close> of \<open>Complex()\<close>. \<open>DNil\<close> is the nil pointer, map, slice, channel,
  function or interface, \<open>DMap\<close> a reference to a map object, \<open>DComposite\<close> the
  elements of an array or the fields of a struct.
\<close>

type_synonym float64 = "64 word"

datatype data =
    DBool bool
  | DInt int
  | DUint nat
  | DFloat float64
  | DComplex float64 float64
  | DString string
  | DNil
  | DMap nat
  | DComposite "data list"

text \<open>
  A \<open>reflect.Value\<close> is the zero Value (\<open>Value_Nil\<close>, the \<open>Nil\<close> of the interpreter), a
  typed value, or an addressable value: a type and the address of the memory it stands
  for. \<open>Value_None\<close> is the marker \<open>None\<close> of the interpreter, the Value of an empty
  struct of a type of its own.
\<close>

datatype Value =
    Value_Nil
  | Val reflect_Type data
  | Ref reflect_Type nat

definition Value_None :: Value where
  "Value_None = Val (RNamed ''none'' (RStruct [])) (DComposite [])"

text \<open>The constant handed to the compiler is an \<open>interface{}\<close>: nil, or a typed value.\<close>

datatype I = I_nil | I_value reflect_Type data

fun ValueOf :: "I \<Rightarrow> Value" where
  "ValueOf I_nil = Value_Nil"
| "ValueOf (I_value t d) = Val t d"

text \<open>
  \<open>reflect.Zero\<close>. Integers and unsigned integers of kind \<open>Int\<close>, \<open>Uint\<close> and
  \<open>Uintptr\<close> have 64 bits.
\<close>

fun zero_data :: "reflect_Type \<Rightarrow> data" where
  "zero_data (RBasic k) =
     (if k = Bool then DBool False
      else if k \<in> {Int', Int8, Int16, Int32, Int64} then DInt 0
      else if k \<in> {Uint, Uint8, Uint16, Uint32, Uint64, Uintptr} then DUint 0
      else if k \<in> {Float32, Float64} then DFloat 0
      else if k \<in> {Complex64, Complex128} then DComplex 0 0
      else if k = String then DString []
      else DNil)"
| "zero_data (RNamed name t) = zero_data t"
| "zero_data (RArray n t) = DComposite (replicate n (zero_data t))"
| "zero_data (RStruct fs) = DComposite (map zero_data fs)"
| "zero_data t = DNil"

definition Zero :: "reflect_Type \<Rightarrow> Value" where
  "Zero t = Val t (zero_data t)"

fun bits :: "reflect_Kind \<Rightarrow> nat" where
  "bits Int8 = 8"
| "bits Int16 = 16"
| "bits Int32 = 32"
| "bits Uint8 = 8"
| "bits Uint16 = 16"
| "bits Uint32 = 32"
| "bits k = 64"

definition wrap_int :: "nat \<Rightarrow> int \<Rightarrow> int" where
  "wrap_int w x = (x + 2 ^ (w - 1)) mod 2 ^ w - 2 ^ (w - 1)"

definition wrap_uint :: "nat \<Rightarrow> nat \<Rightarrow> nat" where
  "wrap_uint w x = x mod 2 ^ w"

text \<open>
  The two operations of package reflect that are taken as given: \<open>Convert\<close>, the
  conversion of a value to a type (it panics when the value is not convertible), and
  \<open>float32\<close>, the rounding of a \<open>float64\<close> to the nearest \<open>float32\<close>, which \<open>SetFloat\<close>
  and \<open>SetComplex\<close> apply when they store into 32-bit floats.
\<close>

record Reflect =
  Convert :: "Value \<Rightarrow> reflect_Type \<Rightarrow> error + Value"
  float32 :: "float64 \<Rightarrow> float64"

text \<open>
  The getters, applied by the compiler to a constant. Each panics on the zero Value and
  on a value of another kind, except \<open>String\<close>, which then returns a description of the
  value (given here without the name of its type). A constant is never addressable.
\<close>

fun Value_Type :: "Value \<Rightarrow> error + reflect_Type" where
  "Value_Type Value_Nil = Inl (ReflectPanic ''reflect: call of reflect.Value.Type on zero Value'')"
| "Value_Type (Val t d) = Inr t"
| "Value_Type (Ref t a) = Inr t"

fun Value_Bool :: "Value \<Rightarrow> error + bool" where
  "Value_Bool (Val t (DBool b)) =
     (if reflect_Kind_of t = Bool then Inr b
      else Inl (ReflectPanic ''reflect: call of reflect.Value.Bool on non-bool Value''))"
| "Value_Bool v = Inl (ReflectPanic ''reflect: call of reflect.Value.Bool on non-bool Value'')"

fun Value_Int :: "Value \<Rightarrow> error + int" where
  "Value_Int (Val t (DInt i)) =
     (if reflect_Kind_of t \<in> {Int', Int8, Int16, Int32, Int64} then Inr i
      else Inl (ReflectPanic ''reflect: call of reflect.Value.Int on non-int Value''))"
| "Value_Int v = Inl (ReflectPanic ''reflect: call of reflect.Value.Int on non-int Value'')"

fun Value_Uint :: "Value \<Rightarrow> error + nat" where
  "Value_Uint (Val t (DUint u)) =
     (if reflect_Kind_of t \<in> {Uint, Uint8, Uint16, Uint32, Uint64, Uintptr} then Inr u
      else Inl (ReflectPanic ''reflect: call of reflect.Value.Uint on non-uint Value''))"
| "Value_Uint v = Inl (ReflectPanic ''reflect: call of reflect.Value.Uint on non-uint Value'')"

fun Value_Float :: "Value \<Rightarrow> error + float64" where
  "Value_Float (Val t (DFloat f)) =
     (if reflect_Kind_of t \<in> {Float32, Float64} then Inr f
      else Inl (ReflectPanic ''reflect: call of reflect.Value.Float on non-float Value''))"
| "Value_Float v = Inl (ReflectPanic ''reflect: call of reflect.Value.Float on non-float Value'')"

fun Value_Complex :: "Value \<Rightarrow> error + float64 \<times> float64" where
  "Value_Complex (Val t (DComplex re im)) =
     (if reflect_Kind_of t \<in> {Complex64, Complex128} then Inr (re, im)
      else Inl (ReflectPanic ''reflect: call of reflect.Value.Complex on non-complex Value''))"
| "Value_Complex v =
     Inl (ReflectPanic ''reflect: call of reflect.Value.Complex on non-complex Value'')"

fun Value_String :: "Value \<Rightarrow> error + string" where
  "Value_String Value_Nil = Inr ''<invalid Value>''"
| "Value_String (Val t (DString s)) =
     (if reflect_Kind_of t = String then Inr s else Inr ''<T Value>'')"
| "Value_String v = Inr ''<T Value>''"

section \<open>Package fast: the environment, places and statements\<close>

text \<open>
  Modelled from the spec: \<open>Env\<close>, \<open>Stmt\<close>, \<open>Place\<close>, \<open>Comp\<close> and the helpers
  \<open>ValueType\<close>, \<open>KindToCategory\<close> and \<open>funAsX1\<close> are declared outside place_set.go.
  A compiler \<open>Comp\<close> owns the code buffer that statements are appended to
  (\<open>CompCode\<close>, the \<open>Code\<close> of \<open>Comp\<close>). An
  environment has the instruction index \<open>IP\<close>, the fixed code buffer \<open>Code\<close> of the
  body being run and the bindings \<open>Binds\<close> (its outer environment, which an assignment
  never touches, is left out); the memory that addressable values point
  into (\<open>Heap\<close>) and the map objects (\<open>Maps\<close>) are carried with it, since every
  effect of a statement or an expression is an effect on what the environment reaches.
  Two counters are bookkeeping and not fields of the source: \<open>Conversions\<close> counts the
  calls of \<open>Convert\<close> made while statements and expressions run in the environment,
  \<open>CompConversions\<close> those made by the compiler while it compiles, so that converting at
  compile time and converting at every execution are told apart.
  A statement takes the environment and returns the next statement with the environment
  to run it in; the entries of \<open>Code\<close> are of a type \<open>'s\<close> of their own, so that a
  statement can return one of them. A \<open>Place\<close> has the function \<open>Fun\<close> that yields the
  container (an addressable value, or the map of a map entry), the optional function
  \<open>MapKey\<close> that yields the key, and the static type \<open>Type\<close>.
\<close>

record 's Env =
  IP :: int
  Code :: "'s list"
  Binds :: "string \<rightharpoonup> Value"
  Heap :: "nat \<rightharpoonup> data"
  Maps :: "nat \<rightharpoonup> (data \<rightharpoonup> data)"
  Conversions :: nat

type_synonym 's Stmt = "'s Env \<Rightarrow> error + 's \<times> 's Env"

type_synonym ('s, 'a) Lazy = "'s Env \<Rightarrow> error + 'a \<times> 's Env"

record 's Place =
  Fun :: "('s, Value) Lazy"
  MapKey :: "('s, Value) Lazy option"
  Type :: reflect_Type

record 's Comp =
  CompCode :: "'s Stmt list"
  CompConversions :: nat

definition Append :: "'s Comp \<Rightarrow> 's Stmt \<Rightarrow> 's Comp" where
  "Append c stmt = c\<lparr>CompCode := CompCode c @ [stmt]\<rparr>"

text \<open>The compiler, respectively the environment, after one more call of \<open>Convert\<close>.\<close>

definition converted :: "'s Comp \<Rightarrow> 's Comp" where
  "converted c = c\<lparr>CompConversions := CompConversions c + 1\<rparr>"

definition converting :: "'s Env \<Rightarrow> 's Env" where
  "converting env = env\<lparr>Conversions := Conversions env + 1\<rparr>"

text \<open>
  The function compiled from the right-hand side, held in an \<open>interface{}\<close>: a function
  that returns a \<open>bool\<close>, an integer, unsigned integer, float or complex number of the
  given kind, a \<open>string\<close>, or a \<open>reflect.Value\<close>; or something else.
\<close>

datatype 's Fun_I =
    FunBool "('s, bool) Lazy"
  | FunInt reflect_Kind "('s, int) Lazy"
  | FunUint reflect_Kind "('s, nat) Lazy"
  | FunFloat reflect_Kind "('s, float64) Lazy"
  | FunComplex reflect_Kind "('s, float64 \<times> float64) Lazy"
  | FunString "('s, string) Lazy"
  | FunX1 "('s, Value) Lazy"
  | FunOther

text \<open>\<open>ValueType\<close>: nil for the zero Value and for \<open>None\<close>, else the type of the value.\<close>

fun ValueType :: "Value \<Rightarrow> reflect_Type option" where
  "ValueType Value_Nil = None"
| "ValueType (Val t d) = (if Val t d = Value_None then None else Some t)"
| "ValueType (Ref t a) = Some t"

fun KindToCategory :: "reflect_Kind \<Rightarrow> reflect_Kind" where
  "KindToCategory Int8 = Int'"
| "KindToCategory Int16 = Int'"
| "KindToCategory Int32 = Int'"
| "KindToCategory Int64 = Int'"
| "KindToCategory Uint8 = Uint"
| "KindToCategory Uint16 = Uint"
| "KindToCategory Uint32 = Uint"
| "KindToCategory Uint64 = Uint"
| "KindToCategory Uintptr = Uint"
| "KindToCategory Float32 = Float64"
| "KindToCategory Complex64 = Complex128"
| "KindToCategory k = k"

definition lift :: "('a \<Rightarrow> 'b) \<Rightarrow> ('s, 'a) Lazy \<Rightarrow> ('s, 'b) Lazy" where
  "lift g f = (\<lambda>env. andThen (f env) (\<lambda>(x, env'). Inr (g x, env')))"

fun funAsX1 :: "'s Fun_I \<Rightarrow> error + ('s, Value) Lazy" where
  "funAsX1 (FunX1 f) = Inr f"
| "funAsX1 (FunBool f) = Inr (lift (\<lambda>b. Val (RBasic Bool) (DBool b)) f)"
| "funAsX1 (FunInt k f) = Inr (lift (\<lambda>i. Val (RBasic k) (DInt i)) f)"
| "funAsX1 (FunUint k f) = Inr (lift (\<lambda>u. Val (RBasic k) (DUint u)) f)"
| "funAsX1 (FunFloat k f) = Inr (lift (\<lambda>x. Val (RBasic k) (DFloat x)) f)"
| "funAsX1 (FunComplex k f) = Inr (lift (\<lambda>(re, im). Val (RBasic k) (DComplex re im)) f)"
| "funAsX1 (FunString f) = Inr (lift (\<lambda>s. Val (RBasic String) (DString s)) f)"
| "funAsX1 FunOther = Inl (Errorf ''unsupported function type, cannot convert to func(*Env) r.Value'')"

subsection \<open>Reading and writing through a value\<close>

text \<open>
  An addressable value is read from the memory it points to. \<open>Value_Convert\<close> is
  \<open>Convert\<close> called while the program runs: it returns the converted value and the
  environment with the call counted.
\<close>

fun load :: "'s Env \<Rightarrow> Value \<Rightarrow> error + Value" where
  "load env (Ref t a) =
     (case Heap env a of
        None \<Rightarrow> Inl (RuntimePanic ''invalid memory address'')
      | Some d \<Rightarrow> Inr (Val t d))"
| "load env v = Inr v"

definition Value_Convert ::
  "Reflect \<Rightarrow> 's Env \<Rightarrow> Value \<Rightarrow> reflect_Type \<Rightarrow> error + Value \<times> 's Env" where
  "Value_Convert lib env v t =
     andThen (load env v) (\<lambda>v'.
     andThen (Convert lib v' t) (\<lambda>v''. Inr (v'', converting env)))"

text \<open>
  The setters want an addressable value of their own kind; they truncate to the size of
  the location. \<open>Set\<close> and \<open>SetMapIndex\<close> want values assignable to the type of the
  target, which is modelled as: of that very type, as the values are that \<open>Convert\<close> and
  \<open>Zero\<close> return. A value of an interface type carries the payload of the value it
  holds.
\<close>

definition store :: "'s Env \<Rightarrow> nat \<Rightarrow> data \<Rightarrow> 's Env" where
  "store env a d = env\<lparr>Heap := (Heap env)(a \<mapsto> d)\<rparr>"

fun Value_SetBool :: "'s Env \<Rightarrow> Value \<Rightarrow> bool \<Rightarrow> error + 's Env" where
  "Value_SetBool env (Ref t a) x =
     (if reflect_Kind_of t = Bool then Inr (store env a (DBool x))
      else Inl (ReflectPanic ''reflect: call of reflect.Value.SetBool on non-bool Value''))"
| "Value_SetBool env v x =
     Inl (ReflectPanic ''reflect: reflect.Value.SetBool using unaddressable value'')"

fun Value_SetInt :: "'s Env \<Rightarrow> Value \<Rightarrow> int \<Rightarrow> error + 's Env" where
  "Value_SetInt env (Ref t a) x =
     (if reflect_Kind_of t \<in> {Int', Int8, Int16, Int32, Int64}
      then Inr (store env a (DInt (wrap_int (bits (reflect_Kind_of t)) x)))
      else Inl (ReflectPanic ''reflect: call of reflect.Value.SetInt on non-int Value''))"
| "Value_SetInt env v x =
     Inl (ReflectPanic ''reflect: reflect.Value.SetInt using unaddressable value'')"

fun Value_SetUint :: "'s Env \<Rightarrow> Value \<Rightarrow> nat \<Rightarrow> error + 's Env" where
  "Value_SetUint env (Ref t a) x =
     (if reflect_Kind_of t \<in> {Uint, Uint8, Uint16, Uint32, Uint64, Uintptr}
      then Inr (store env a (DUint (wrap_uint (bits (reflect_Kind_of t)) x)))
      else Inl (ReflectPanic ''reflect: call of reflect.Value.SetUint on non-uint Value''))"
| "Value_SetUint env v x =
     Inl (ReflectPanic ''reflect: reflect.Value.SetUint using unaddressable value'')"

fun Value_SetFloat :: "Reflect \<Rightarrow> 's Env \<Rightarrow> Value \<Rightarrow> float64 \<Rightarrow> error + 's Env" where
  "Value_SetFloat lib env (Ref t a) x =
     (if reflect_Kind_of t = Float32 then Inr (store env a (DFloat (float32 lib x)))
      else if reflect_Kind_of t = Float64 then Inr (store env a (DFloat x))
      else Inl (ReflectPanic ''reflect: call of reflect.Value.SetFloat on non-float Value''))"
| "Value_SetFloat lib env v x =
     Inl (ReflectPanic ''reflect: reflect.Value.SetFloat using unaddressable value'')"

fun Value_SetComplex ::
  "Reflect \<Rightarrow> 's Env \<Rightarrow> Value \<Rightarrow> float64 \<times> float64 \<Rightarrow> error + 's Env" where
  "Value_SetComplex lib env (Ref t a) x =
     (if reflect_Kind_of t = Complex64
      then Inr (store env a (DComplex (float32 lib (fst x)) (float32 lib (snd x))))
      else if reflect_Kind_of t = Complex128 then Inr (store env a (DComplex (fst x) (snd x)))
      else Inl (ReflectPanic ''reflect: call of reflect.Value.SetComplex on non-complex Value''))"
| "Value_SetComplex lib env v x =
     Inl (ReflectPanic ''reflect: reflect.Value.SetComplex using unaddressable value'')"

fun Value_SetString :: "'s Env \<Rightarrow> Value \<Rightarrow> string \<Rightarrow> error + 's Env" where
  "Value_SetString env (Ref t a) x =
     (if reflect_Kind_of t = String then Inr (store env a (DString x))
      else Inl (ReflectPanic ''reflect: call of reflect.Value.SetString on non-string Value''))"
| "Value_SetString env v x =
     Inl (ReflectPanic ''reflect: reflect.Value.SetString using unaddressable value'')"

fun Value_Set :: "'s Env \<Rightarrow> Value \<Rightarrow> Value \<Rightarrow> error + 's Env" where
  "Value_Set env (Ref t a) x =
     andThen (load env x) (\<lambda>x'.
       case x' of
         Val t' d \<Rightarrow>
           (if t' = t then Inr (store env a d)
            else Inl (ReflectPanic ''reflect.Set: value is not assignable to type''))
       | _ \<Rightarrow> Inl (ReflectPanic ''reflect: call of reflect.Value.Set on zero Value''))"
| "Value_Set env v x =
     Inl (ReflectPanic ''reflect: reflect.Value.Set using unaddressable value'')"

text \<open>
  \<open>SetMapIndex\<close>: the receiver must be a map and the key of its key type; the zero
  Value as element deletes the key, any other element must be of the element type and
  is stored under the key; storing into a nil map panics.
\<close>

fun mapassign :: "'s Env \<Rightarrow> data \<Rightarrow> data \<Rightarrow> data \<Rightarrow> error + 's Env" where
  "mapassign env (DMap a) kd ed =
     (case Maps env a of
        Some entries \<Rightarrow> Inr (env\<lparr>Maps := (Maps env)(a \<mapsto> entries(kd \<mapsto> ed))\<rparr>)
      | None \<Rightarrow> Inl (RuntimePanic ''invalid memory address''))"
| "mapassign env m kd ed = Inl (RuntimePanic ''assignment to entry in nil map'')"

fun mapdelete :: "'s Env \<Rightarrow> data \<Rightarrow> data \<Rightarrow> error + 's Env" where
  "mapdelete env (DMap a) kd =
     (case Maps env a of
        Some entries \<Rightarrow> Inr (env\<lparr>Maps := (Maps env)(a \<mapsto> entries(kd := None))\<rparr>)
      | None \<Rightarrow> Inl (RuntimePanic ''invalid memory address''))"
| "mapdelete env m kd = Inr env"

fun map_store :: "'s Env \<Rightarrow> reflect_Type \<Rightarrow> data \<Rightarrow> data \<Rightarrow> Value \<Rightarrow> error + 's Env" where
  "map_store env et m kd (Val et' ed) =
     (if et' \<noteq> et then Inl (ReflectPanic ''reflect.Value.SetMapIndex: value is not assignable'')
      else mapassign env m kd ed)"
| "map_store env et m kd elem = mapdelete env m kd"

fun map_index :: "'s Env \<Rightarrow> reflect_Type \<Rightarrow> data \<Rightarrow> Value \<Rightarrow> Value \<Rightarrow> error + 's Env" where
  "map_index env (RMap kt et) m (Val kt' kd) elem =
     (if kt' \<noteq> kt then Inl (ReflectPanic ''reflect.Value.SetMapIndex: key is not assignable'')
      else map_store env et m kd elem)"
| "map_index env (RMap kt et) m key elem =
     Inl (ReflectPanic ''reflect: call of reflect.Value.SetMapIndex with zero key'')"
| "map_index env t m key elem =
     Inl (ReflectPanic ''reflect: call of reflect.Value.SetMapIndex on non-map Value'')"

definition SetMapIndex :: "'s Env \<Rightarrow> Value \<Rightarrow> Value \<Rightarrow> Value \<Rightarrow> error + 's Env" where
  "SetMapIndex env obj key elem =
     andThen (load env obj) (\<lambda>obj'.
     andThen (load env key) (\<lambda>key'.
     andThen (load env elem) (\<lambda>elem'.
       case obj' of
         Val t m \<Rightarrow> map_index env (reflect_underlying t) m key' elem'
       | _ \<Rightarrow> Inl (ReflectPanic ''reflect: call of reflect.Value.SetMapIndex on zero Value''))))"

subsection \<open>The compiled statements (place_set.go)\<close>

text \<open>The end of every compiled statement: \<open>env.IP++; return env.Code[env.IP], env\<close>.\<close>

definition advance :: "'s Stmt" where
  "advance env =
     (let env' = env\<lparr>IP := IP env + 1\<rparr>
      in andThen (index (Code env') (IP env')) (\<lambda>stmt. Inr (stmt, env')))"

text \<open>
  \<open>setplaces_const\<close>, the expansion of the macro: one statement per category of the
  static type. The getter is applied once, when the statement is built; the statement
  evaluates the place, stores, and goes on.
\<close>

definition setplaces_const ::
  "Reflect \<Rightarrow> reflect_Type \<Rightarrow> ('s, Value) Lazy \<Rightarrow> Value \<Rightarrow> error + 's Stmt" where
  "setplaces_const lib t lhs v =
     (let cat = KindToCategory (reflect_Kind_of t) in
      if cat = Bool then
        andThen (Value_Bool v) (\<lambda>val. Inr (\<lambda>env.
          andThen (lhs env) (\<lambda>(place, env).
          andThen (Value_SetBool env place val) advance)))
      else if cat = Int' then
        andThen (Value_Int v) (\<lambda>val. Inr (\<lambda>env.
          andThen (lhs env) (\<lambda>(place, env).
          andThen (Value_SetInt env place val) advance)))
      else if cat = Uint then
        andThen (Value_Uint v) (\<lambda>val. Inr (\<lambda>env.
          andThen (lhs env) (\<lambda>(place, env).
          andThen (Value_SetUint env place val) advance)))
      else if cat = Float64 then
        andThen (Value_Float v) (\<lambda>val. Inr (\<lambda>env.
          andThen (lhs env) (\<lambda>(place, env).
          andThen (Value_SetFloat lib env place val) advance)))
      else if cat = Complex128 then
        andThen (Value_Complex v) (\<lambda>val. Inr (\<lambda>env.
          andThen (lhs env) (\<lambda>(place, env).
          andThen (Value_SetComplex lib env place val) advance)))
      else if cat = String then
        andThen (Value_String v) (\<lambda>val. Inr (\<lambda>env.
          andThen (lhs env) (\<lambda>(place, env).
          andThen (Value_SetString env place val) advance)))
      else
        Inr (\<lambda>env.
          andThen (lhs env) (\<lambda>(place, env).
          andThen (Value_Set env place v) advance)))"

text \<open>
  \<open>placeSetConst\<close> compiles \<open>place = constant\<close>. The constant is converted here, by
  the compiler (the call is counted in the compiler), and the statement closes over the
  converted value.
\<close>

definition placeSetConst :: "Reflect \<Rightarrow> 's Comp \<Rightarrow> 's Place \<Rightarrow> I \<Rightarrow> error + 's Comp" where
  "placeSetConst lib c place val =
     (let t = Type place; v0 = ValueOf val in
      andThen (if ValueType v0 = None then Inr (Zero t, c)
               else andThen (Convert lib v0 t) (\<lambda>v. Inr (v, converted c))) (\<lambda>(v, c).
      let lhs = Fun place in
      case MapKey place of
        Some mapkey \<Rightarrow>
          Inr (Append c (\<lambda>env.
            andThen (lhs env) (\<lambda>(obj, env).
            andThen (mapkey env) (\<lambda>(key, env).
            andThen (SetMapIndex env obj key v) advance))))
      | None \<Rightarrow> andThen (setplaces_const lib t lhs v) (\<lambda>ret. Inr (Append c ret))))"

text \<open>\<open>placeSetZero\<close> compiles \<open>place = 0\<close>: the constant is the zero value of the type.\<close>

fun Interface :: "Value \<Rightarrow> I" where
  "Interface (Val t d) = I_value t d"
| "Interface v = I_nil"

definition placeSetZero :: "Reflect \<Rightarrow> 's Comp \<Rightarrow> 's Place \<Rightarrow> error + 's Comp" where
  "placeSetZero lib c place = placeSetConst lib c place (Interface (Zero (Type place)))"

text \<open>
  \<open>setplaces_expr\<close>, the expansion of the macro: the switch is on the kind itself. For
  each of the seventeen basic kinds the function must be of the matching Go type (the
  type assertion panics otherwise, when the statement is built), and the statement
  evaluates the place, then the value, stores with the setter of the category, and goes
  on. In every other case the function is turned into one that returns a
  \<open>reflect.Value\<close>; the statement replaces \<open>Nil\<close> and \<open>None\<close> by the zero value, converts
  a value of another type, and stores with \<open>Set\<close>.
\<close>

definition assertion_failed :: error where
  "assertion_failed = RuntimePanic ''interface conversion: interface {} is not func(*Env) T''"

definition setplaces_expr ::
  "Reflect \<Rightarrow> reflect_Type \<Rightarrow> ('s, Value) Lazy \<Rightarrow> 's Fun_I \<Rightarrow> error + 's Stmt" where
  "setplaces_expr lib t lhs fn =
     (let k = reflect_Kind_of t in
      if k = Bool then
        (case fn of
           FunBool rhs \<Rightarrow> Inr (\<lambda>env.
             andThen (lhs env) (\<lambda>(place, env).
             andThen (rhs env) (\<lambda>(value, env).
             andThen (Value_SetBool env place value) advance)))
         | _ \<Rightarrow> Inl assertion_failed)
      else if k \<in> {Int', Int8, Int16, Int32, Int64} then
        (case fn of
           FunInt k' rhs \<Rightarrow>
             (if k' = k then Inr (\<lambda>env.
                andThen (lhs env) (\<lambda>(place, env).
                andThen (rhs env) (\<lambda>(value, env).
                andThen (Value_SetInt env place value) advance)))
              else Inl assertion_failed)
         | _ \<Rightarrow> Inl assertion_failed)
      else if k \<in> {Uint, Uint8, Uint16, Uint32, Uint64, Uintptr} then
        (case fn of
           FunUint k' rhs \<Rightarrow>
             (if k' = k then Inr (\<lambda>env.
                andThen (lhs env) (\<lambda>(place, env).
                andThen (rhs env) (\<lambda>(value, env).
                andThen (Value_SetUint env place value) advance)))
              else Inl assertion_failed)
         | _ \<Rightarrow> Inl assertion_failed)
      else if k \<in> {Float32, Float64} then
        (case fn of
           FunFloat k' rhs \<Rightarrow>
             (if k' = k then Inr (\<lambda>env.
                andThen (lhs env) (\<lambda>(place, env).
                andThen (rhs env) (\<lambda>(value, env).
                andThen (Value_SetFloat lib env place value) advance)))
              else Inl assertion_failed)
         | _ \<Rightarrow> Inl assertion_failed)
      else if k \<in> {Complex64, Complex128} then
        (case fn of
           FunComplex k' rhs \<Rightarrow>
             (if k' = k then Inr (\<lambda>env.
                andThen (lhs env) (\<lambda>(place, env).
                andThen (rhs env) (\<lambda>(value, env).
                andThen (Value_SetComplex lib env place value) advance)))
              else Inl assertion_failed)
         | _ \<Rightarrow> Inl assertion_failed)
      else if k = String then
        (case fn of
           FunString rhs \<Rightarrow> Inr (\<lambda>env.
             andThen (lhs env) (\<lambda>(place, env).
             andThen (rhs env) (\<lambda>(value, env).
             andThen (Value_SetString env place value) advance)))
         | _ \<Rightarrow> Inl assertion_failed)
      else
        andThen (funAsX1 fn) (\<lambda>rhs.
        let zero = Zero t in
        Inr (\<lambda>env.
          andThen (lhs env) (\<lambda>(place, env).
          andThen (rhs env) (\<lambda>(value, env).
          andThen (if value = Value_Nil \<or> value = Value_None then Inr (zero, env)
                   else andThen (Value_Type value) (\<lambda>vt.
                          if vt \<noteq> t then Value_Convert lib env value t
                          else Inr (value, env)))
            (\<lambda>(value, env).
          andThen (Value_Set env place value) advance))))))"

text \<open>\<open>placeSetExpr\<close> compiles \<open>place = expression\<close>.\<close>

definition placeSetExpr ::
  "Reflect \<Rightarrow> 's Comp \<Rightarrow> 's Place \<Rightarrow> 's Fun_I \<Rightarrow> error + 's Comp" where
  "placeSetExpr lib c place fn =
     (let t = Type place; lhs = Fun place in
      case MapKey place of
        Some mapkey \<Rightarrow>
          andThen (funAsX1 fn) (\<lambda>rhs.
          Inr (Append c (\<lambda>env.
            andThen (lhs env) (\<lambda>(obj, env).
            andThen (mapkey env) (\<lambda>(key, env).
            andThen (rhs env) (\<lambda>(val, env).
            andThen (andThen (Value_Type val) (\<lambda>vt.
                       if vt \<noteq> t then Value_Convert lib env val t else Inr (val, env)))
              (\<lambda>(val, env).
            andThen (SetMapIndex env obj key val) advance)))))))
      | None \<Rightarrow> andThen (setplaces_expr lib t lhs fn) (\<lambda>ret. Inr (Append c ret)))"

text \<open>
  The preference order in the words of the specification: the receiver's universe, else
  that of the first non-nil input type, else that of the first non-nil output type, else
  the default global universe.
\<close>

definition first_non_nil :: "Type list \<Rightarrow> Type" where
  "first_non_nil ts = (case filter (\<lambda>t. t \<noteq> None) ts of [] \<Rightarrow> None | t # _ \<Rightarrow> t)"

definition preferred_universe :: "Type \<Rightarrow> Type list \<Rightarrow> Type list \<Rightarrow> Universe" where
  "preferred_universe recv ins outs =
     (case recv of
        Some r \<Rightarrow> universe r
      | None \<Rightarrow>
          (case first_non_nil ins of
             Some t \<Rightarrow> universe t
           | None \<Rightarrow>
               (case first_non_nil outs of
                  Some t \<Rightarrow> universe t
                | None \<Rightarrow> universe_global)))"

text \<open>
  Example types: \<open>int\<close> and \<open>bool\<close> of the global universe, a named struct \<open>T\<close> owned by
  universe 1, \<open>string\<close> owned by universe 2, the function type \<open>func(int) bool\<close> and the
  method type \<open>func (T) (int)\<close>.
\<close>

definition intType :: xtype where
  "intType = MakeType universe_global (Basic Int') (RBasic Int')"

definition boolType :: xtype where
  "boolType = MakeType universe_global (Basic Bool) (RBasic Bool)"

definition recvType :: xtype where
  "recvType = MakeType (Universe 1) (Named ''T'' (StructOf [])) (RNamed ''T'' (RStruct []))"

definition stringType2 :: xtype where
  "stringType2 = MakeType (Universe 2) (Basic String) (RBasic String)"

definition funcType :: xtype where
  "funcType = MakeType universe_global
     (Signature None [NewParam [] (Basic Int')] [NewParam [] (Basic Bool)] False)
     (RFunc [RBasic Int'] [RBasic Bool] False)"

definition methodType :: xtype where
  "methodType = MakeType (Universe 1)
     (Signature (Some (NewParam [] (Named ''T'' (StructOf [])))) [NewParam [] (Basic Int')] [] False)
     (RFunc [RNamed ''T'' (RStruct []), RBasic Int'] [] False)"

subsection \<open>What the claims say about statements and constants\<close>







text \<open>
  The kinds that have a case of their own in the switches of place_set.go; every other
  kind (interface, pointer, map, struct, ...) is handled by the default case.
\<close>

definition basic_kinds :: "reflect_Kind set" where
  "basic_kinds =
     {Bool, Int', Int8, Int16, Int32, Int64, Uint, Uint8, Uint16, Uint32, Uint64, Uintptr,
      Float32, Float64, Complex64, Complex128, String}"

text \<open>
  A value is a proper value of a type when it is of that type and its payload is one
  that a location of the type can hold unchanged: for a basic kind a payload of that
  kind, an integer within the range of the kind, a 32-bit float that \<open>float32\<close> leaves
  as it is; for every other kind, any payload (a location of interface type holds a
  value of any kind). This is what \<open>Convert\<close> and \<open>Zero\<close> return.
\<close>

fun Value_data :: "Value \<Rightarrow> data" where
  "Value_data (Val t d) = d"
| "Value_data v = DNil"

fun fits_basic :: "Reflect \<Rightarrow> reflect_Kind \<Rightarrow> data \<Rightarrow> bool" where
  "fits_basic lib k (DBool b) = (k = Bool)"
| "fits_basic lib k (DInt i) =
     (k \<in> {Int', Int8, Int16, Int32, Int64} \<and> wrap_int (bits k) i = i)"
| "fits_basic lib k (DUint u) =
     (k \<in> {Uint, Uint8, Uint16, Uint32, Uint64, Uintptr} \<and> wrap_uint (bits k) u = u)"
| "fits_basic lib k (DFloat f) = (k = Float64 \<or> k = Float32 \<and> float32 lib f = f)"
| "fits_basic lib k (DComplex re im) =
     (k = Complex128 \<or> k = Complex64 \<and> float32 lib re = re \<and> float32 lib im = im)"
| "fits_basic lib k (DString s) = (k = String)"
| "fits_basic lib k d = False"

definition fits :: "Reflect \<Rightarrow> reflect_Kind \<Rightarrow> data \<Rightarrow> bool" where
  "fits lib k d = (k \<notin> basic_kinds \<or> fits_basic lib k d)"

fun proper :: "Reflect \<Rightarrow> reflect_Type \<Rightarrow> Value \<Rightarrow> bool" where
  "proper lib t (Val t' d) = (t' = t \<and> fits lib (reflect_Kind_of t) d)"
| "proper lib t v = False"


subsection \<open>An example: \<open>m[k] = f()\<close>, \<open>x = 300\<close> and \<open>y = 42\<close>\<close>

text \<open>
  The conversion of the example converts integers to any integer kind, truncating, any
  value to an interface type, keeping its payload, and everything else to its own type
  only; the example stores no floats. \<open>logging\<close> is
  an expression with a side effect: it appends its tag to the log kept at address 0
  and yields its value. The map \<open>m\<close> is the map object 1, the variable \<open>x\<close> lives at
  address 2, the variable \<open>y\<close> at address 3, and the code buffer holds the statements
  100, 101 and 102. \<open>boxed_fun\<close> is a function that returns the \<open>reflect.Value\<close> of
  the \<open>int\<close> 9.
\<close>

definition example_Convert :: "Value \<Rightarrow> reflect_Type \<Rightarrow> error + Value" where
  "example_Convert v t =
     (case v of
        Val t' (DInt i) \<Rightarrow>
          (if reflect_Kind_of t \<in> {Int', Int8, Int16, Int32, Int64}
           then Inr (Val t (DInt (wrap_int (bits (reflect_Kind_of t)) i)))
           else if reflect_Kind_of t = reflect_Kind.Interface then Inr (Val t (DInt i))
           else Inl (ReflectPanic ''reflect.Value.Convert: value cannot be converted''))
      | Val t' d \<Rightarrow>
          (if t' = t then Inr v
           else if reflect_Kind_of t = reflect_Kind.Interface then Inr (Val t d)
           else Inl (ReflectPanic ''reflect.Value.Convert: value cannot be converted''))
      | _ \<Rightarrow> Inl (ReflectPanic ''reflect: call of reflect.Value.Convert on zero Value''))"

definition example_lib :: Reflect where
  "example_lib = \<lparr>Convert = example_Convert, float32 = (\<lambda>x. x)\<rparr>"

definition logging :: "string \<Rightarrow> 'a \<Rightarrow> ('s, 'a) Lazy" where
  "logging tag x env =
     Inr (x, store env 0 (DString ((case Heap env 0 of Some (DString s) \<Rightarrow> s | _ \<Rightarrow> []) @ tag)))"

definition map_place :: "nat Place" where
  "map_place =
     \<lparr>Fun = logging ''container;'' (Val (RMap (RBasic String) (RBasic Int8)) (DMap 1)),
      MapKey = Some (logging ''key;'' (Val (RBasic String) (DString ''k''))),
      Type = RBasic Int8\<rparr>"

definition plain_place :: "nat Place" where
  "plain_place = \<lparr>Fun = (\<lambda>env. Inr (Ref (RBasic Int8) 2, env)), MapKey = None, Type = RBasic Int8\<rparr>"

definition iface_place :: "nat Place" where
  "iface_place =
     \<lparr>Fun = (\<lambda>env. Inr (Ref (RInterface []) 3, env)), MapKey = None, Type = RInterface []\<rparr>"

definition value_fun :: "nat Fun_I" where
  "value_fun = FunInt Int8 (logging ''value;'' 7)"

definition boxed_fun :: "nat Fun_I" where
  "boxed_fun = FunX1 (logging ''boxed;'' (Val (RBasic Int') (DInt 9)))"

definition example_comp :: "nat Comp" where
  "example_comp = \<lparr>CompCode = [], CompConversions = 0\<rparr>"

definition example_env :: "nat Env" where
  "example_env =
     \<lparr>IP = 0, Code = [100, 101, 102], Binds = Map.empty,
      Heap = [0 \<mapsto> DString [], 2 \<mapsto> DInt 0, 3 \<mapsto> DNil], Maps = [1 \<mapsto> Map.empty],
      Conversions = 0\<rparr>"

section \<open>Properties of the code buffer\<close>

lemma asmArg_lowered: "lowered e \<Longrightarrow> \<exists>a. asmArg e = Inr a"
  by (cases e) simp_all

lemma asmArg_Inr_lowered: "asmArg e = Inr a \<Longrightarrow> lowered e"
  by (cases e) simp_all

text \<open>
  C7. \<open>asmArg\<close> returns a token exactly for the two lowered operand shapes: a raw
  token is returned as it is, a soft register is encoded as its id. Every unlowered
  expression node (\<open>*Expr1\<close> or \<open>*Expr2\<close>) raises the internal error, and no other
  operand yields a token either.
\<close>

theorem asmArg_accepts_only_lowered:
  "asmArg (ExprAsmCode a) = Inr a \<and>
   asmArg (ExprSoftReg r) = Inr (AsmSoftRegId (reg_id r)) \<and>
   asmArg (Expr1 op1 x) =
     Inl (Errorf ''internal error: cannot assemble %T, must be compiled first: %v'') \<and>
   asmArg (Expr2 op2 x y) =
     Inl (Errorf ''internal error: cannot assemble %T, must be compiled first: %v'') \<and>
   ((\<exists>tok. asmArg e = Inr tok) = lowered e)"
  using asmArg_lowered asmArg_Inr_lowered by auto

text \<open>
  C6. \<open>Inst1(NOP, dst)\<close> returns the buffer as it was, whatever \<open>dst\<close> is (the
  operand is not even encoded). \<open>Inst2(ASSIGN, x, x)\<close> returns the buffer as it was
  for every lowered operand \<open>x\<close>, and more generally whenever source and destination
  encode to the same token; for an unlowered \<open>x\<close> it panics in \<open>asmArg\<close> before the
  buffer is touched. On the empty buffer both leave a buffer of length 0.
\<close>

theorem nop_and_self_assign_elided:
  "Code_Inst1 NOP dst c = Inr c \<and>
   (lowered x \<longrightarrow> Code_Inst2 ASSIGN x x c = Inr c) \<and>
   (asmArg src = Inr a \<and> asmArg dst = Inr a \<longrightarrow> Code_Inst2 ASSIGN src dst c = Inr c) \<and>
   (\<forall>e. asmArg x = Inl e \<longrightarrow> Code_Inst2 ASSIGN x x c = Inl e) \<and>
   map_sum id length (Code_Inst1 NOP dst []) = Inr 0 \<and>
   (lowered x \<longrightarrow> map_sum id length (Code_Inst2 ASSIGN x x []) = Inr 0)"
proof -
  have nop: "\<And>b. Code_Inst1 NOP dst b = Inr b"
    by (simp add: Code_Inst1_def)
  have same: "\<And>b s d t. asmArg s = Inr t \<Longrightarrow> asmArg d = Inr t \<Longrightarrow> Code_Inst2 ASSIGN s d b = Inr b"
    by (simp add: Code_Inst2_def)
  have low: "\<And>b. lowered x \<Longrightarrow> Code_Inst2 ASSIGN x x b = Inr b"
    using asmArg_lowered same by blast
  have bad: "\<And>e. asmArg x = Inl e \<Longrightarrow> Code_Inst2 ASSIGN x x c = Inl e"
    by (simp add: Code_Inst2_def)
  show ?thesis
    using nop same low bad by simp
qed

theorem nop_and_self_assign_elided_witness:
  "Code_Inst1 NOP (Expr1 (Op1 7) ExprOther) [AsmRaw 1] = Inr [AsmRaw 1] \<and>
   Code_Inst2 ASSIGN (ExprSoftReg \<lparr>reg_id = 3, reg_kind = 0\<rparr>)
     (ExprSoftReg \<lparr>reg_id = 3, reg_kind = 0\<rparr>) [AsmRaw 1] = Inr [AsmRaw 1] \<and>
   Code_Inst2 ASSIGN (ExprAsmCode (AsmSoftRegId 3))
     (ExprSoftReg \<lparr>reg_id = 3, reg_kind = 0\<rparr>) [AsmRaw 1] = Inr [AsmRaw 1] \<and>
   Code_Inst2 ASSIGN (Expr1 (Op1 7) ExprOther) (Expr1 (Op1 7) ExprOther) [AsmRaw 1] =
     Inl (Errorf ''internal error: cannot assemble %T, must be compiled first: %v'') \<and>
   map_sum id length (Code_Inst2 ASSIGN (ExprSoftReg \<lparr>reg_id = 3, reg_kind = 0\<rparr>)
     (ExprSoftReg \<lparr>reg_id = 3, reg_kind = 0\<rparr>) []) = Inr 0"
proof -
  let ?r = "ExprSoftReg \<lparr>reg_id = 3, reg_kind = 0\<rparr>"
  let ?u = "Expr1 (Op1 7) ExprOther"
  have a: "lowered ?r" by simp
  have b: "asmArg (ExprAsmCode (AsmSoftRegId 3)) = Inr (AsmSoftRegId 3) \<and>
           asmArg ?r = Inr (AsmSoftRegId 3)" by simp
  have c: "asmArg ?u =
     Inl (Errorf ''internal error: cannot assemble %T, must be compiled first: %v'')" by simp
  show ?thesis
    using nop_and_self_assign_elided [where dst = ?r and c = "[AsmRaw 1]" and x = ?r
        and src = "ExprAsmCode (AsmSoftRegId 3)" and a = "AsmSoftRegId 3"]
      nop_and_self_assign_elided [where dst = ?u and c = "[AsmRaw 1]" and x = ?u
        and src = ?u and a = "AsmSoftRegId 3"]
      a b c
    by (simp del: asmArg.simps lowered.simps)
qed

section \<open>Properties of the function and method types\<close>

lemma andThen_Inl: "andThen (Inl e) f = Inl e"
  by (simp add: andThen_def)

lemma andThen_Inr: "andThen (Inr x) f = f x"
  by (simp add: andThen_def)

lemma andThen_eq_Inr: "(andThen m f = Inr y) = (\<exists>x. m = Inr x \<and> f x = Inr y)"
  by (cases m) (simp_all add: andThen_def)

lemma index_Inr: "(index xs i = Inr x) = (0 \<le> i \<and> i < int (length xs) \<and> x = xs ! nat i)"
  by (auto simp: index_def)

lemma index_outside: "\<not> (0 \<le> i \<and> i < int (length xs)) \<Longrightarrow> index xs i = Inl (RuntimePanic ''index out of range'')"
  by (simp add: index_def)

lemma toGoTuple_Some: "toGoTuple (map Some xs) = Inr (map (\<lambda>t. NewParam [] (gtype t)) xs)"
  by (induction xs) simp_all

lemma toReflectTypes_Some: "toReflectTypes (map Some xs) = Inr (map rtype xs)"
  by (induction xs) simp_all

lemma toReflectTypes_Inr: "toReflectTypes ts = Inr rs \<Longrightarrow> ts = map Some (map the ts) \<and> rs = map (\<lambda>t. rtype (the t)) ts"
proof (induction ts arbitrary: rs rule: toReflectTypes.induct)
  case 1 then show ?case by simp
next
  case (2 ts) then show ?case by simp
next
  case (3 t ts) then show ?case by (auto split: sum.splits)
qed

lemma toGoTuple_Inr: "toGoTuple ts = Inr vs \<Longrightarrow> ts = map Some (map the ts) \<and> vs = map (\<lambda>t. NewParam [] (gtype (the t))) ts"
proof (induction ts arbitrary: vs)
  case Nil then show ?case by simp
next
  case (Cons t ts) then show ?case by (cases t) (auto split: sum.splits)
qed

lemma Universe_MethodOf_Inr:
  assumes "Universe_MethodOf v recv ins outs variadic = Inr t"
  shows "\<exists>gin gout rin rout.
           toGoTuple ins = Inr gin \<and> toGoTuple outs = Inr gout \<and>
           toReflectTypes ins = Inr rin \<and> toReflectTypes outs = Inr rout \<and>
           t = MakeType v
                 (Signature (case recv of None \<Rightarrow> None | Some r \<Rightarrow> Some (NewParam [] (gtype r))) gin gout variadic)
                 (RFunc (case recv of None \<Rightarrow> rin | Some r \<Rightarrow> rtype r # rin) rout variadic)"
  using assms
  by (cases recv)
     (auto simp: Universe_MethodOf_def andThen_eq_Inr NewSignature_def reflect_FuncOf_def
           split: if_splits)


lemma Universe_MethodOf_ok:
  assumes "variadic \<longrightarrow>
             xs \<noteq> [] \<and> is_SliceOf (gtype (last xs)) \<and> reflect_Kind_of (rtype (last xs)) = Slice"
    and "length xs + length ys + (case recv of None \<Rightarrow> 0 | Some r \<Rightarrow> 1) \<le> 128"
  shows "Universe_MethodOf v recv (map Some xs) (map Some ys) variadic =
         Inr (MakeType v
               (Signature (case recv of None \<Rightarrow> None | Some r \<Rightarrow> Some (NewParam [] (gtype r)))
                  (map (\<lambda>t. NewParam [] (gtype t)) xs) (map (\<lambda>t. NewParam [] (gtype t)) ys) variadic)
               (RFunc (case recv of None \<Rightarrow> map rtype xs | Some r \<Rightarrow> rtype r # map rtype xs)
                  (map rtype ys) variadic))"
  using assms
  by (cases recv; cases variadic)
     (simp_all add: Universe_MethodOf_def toGoTuple_Some toReflectTypes_Some andThen_Inr
        NewSignature_def reflect_FuncOf_def last_map)

lemma NumIn_MakeType_Signature:
  "NumIn (MakeType v (Signature recv params results variadic) r) = Inr (int (length params))"
  by (simp add: NumIn_def Kind_def MakeType_def underlying_def Tuple_Len_def)

lemma In_positions:
  assumes "Kind t = Func"
    and "underlying t = Signature recv params results variadic"
    and "reflect_underlying (rtype t) = RFunc rins routs rv"
    and "0 \<le> i" "i < int (length params)"
    and "length rins = length params + (if recv \<noteq> None then 1 else 0)"
  shows "In t i = Inr (MakeType (universe t) (Var_Type (params ! nat i))
                        (rins ! nat (if recv \<noteq> None then i + 1 else i)))"
  using assms
  by (simp add: In_def Tuple_At_def index_def reflect_In_def)

lemma first_non_nil_Some: "first_non_nil (map Some xs) = (case xs of [] \<Rightarrow> None | x # _ \<Rightarrow> Some x)"
  by (cases xs) (simp_all add: first_non_nil_def)

lemma universe_MakeType: "universe (MakeType v g r) = v"
  by (simp add: MakeType_def)

lemma Universe_MethodOf_universe:
  "Universe_MethodOf v recv ins outs variadic = Inr t \<Longrightarrow> universe t = v"
  by (auto dest!: Universe_MethodOf_Inr simp: universe_MakeType)

lemma Universe_MethodOf_non_nil:
  "Universe_MethodOf v recv ins outs variadic = Inr t \<Longrightarrow>
   ins = map Some (map the ins) \<and> outs = map Some (map the outs)"
  by (auto dest!: Universe_MethodOf_Inr toGoTuple_Inr)

lemmas example_types =
  intType_def boolType_def recvType_def stringType2_def funcType_def methodType_def

lemma FuncOf_example: "FuncOf [Some intType] [Some boolType] False = Inr funcType"
  by (simp add: FuncOf_def MethodOf_def Universe_MethodOf_def andThen_def NewSignature_def
        reflect_FuncOf_def example_types MakeType_def)

lemma MethodOf_example: "MethodOf (Some recvType) [Some intType] [] False = Inr methodType"
  by (simp add: MethodOf_def Universe_MethodOf_def andThen_def NewSignature_def
        reflect_FuncOf_def example_types MakeType_def)

lemma Universe_MethodOf_example:
  "Universe_MethodOf (Universe 1) (Some recvType) (map Some [intType]) [] False = Inr methodType"
  by (simp add: Universe_MethodOf_def andThen_def NewSignature_def
        reflect_FuncOf_def example_types MakeType_def)

lemma Universe_FuncOf_example:
  "Universe_MethodOf universe_global None (map Some [intType]) [Some boolType] False = Inr funcType"
  by (simp add: Universe_MethodOf_def andThen_def NewSignature_def
        reflect_FuncOf_def example_types MakeType_def)

text \<open>
  C2. On a type whose kind is not \<open>Func\<close> each of \<open>In\<close>, \<open>Out\<close>, \<open>NumIn\<close>, \<open>NumOut\<close>,
  \<open>Recv\<close>, \<open>IsVariadic\<close> and \<open>IsMethod\<close> panics at once in \<open>xerrorf\<close>. On a function
  type \<open>In(i)\<close> panics whenever \<open>i\<close> is outside \<open>[0, NumIn())\<close> and \<open>Out(i)\<close> whenever
  \<open>i\<close> is outside \<open>[0, NumOut())\<close>: the tuple of the static signature is indexed first.
  Conversely, an accessor that returns was given a function type and an index in range.
\<close>

theorem accessors_reject_non_func_and_bad_index:
  "(Kind t \<noteq> Func \<longrightarrow>
      In t i = Inl (Xerrorf ''In of non-func type %v'') \<and>
      Out t i = Inl (Xerrorf ''Out of non-func type %v'') \<and>
      NumIn t = Inl (Xerrorf ''NumIn of non-func type %v'') \<and>
      NumOut t = Inl (Xerrorf ''NumOut of non-func type %v'') \<and>
      Recv t = Inl (Xerrorf ''Recv of non-func type %v'') \<and>
      IsVariadic t = Inl (Xerrorf ''In of non-func type %v'') \<and>
      IsMethod t = Inl (Xerrorf ''IsMethod of non-func type %v'')) \<and>
   (Kind t = Func \<and> NumIn t = Inr n \<and> \<not> (0 \<le> i \<and> i < n) \<longrightarrow>
      In t i = Inl (RuntimePanic ''index out of range'')) \<and>
   (Kind t = Func \<and> NumOut t = Inr m \<and> \<not> (0 \<le> i \<and> i < m) \<longrightarrow>
      Out t i = Inl (RuntimePanic ''index out of range'')) \<and>
   (In t i = Inr r \<longrightarrow> Kind t = Func \<and> (\<exists>k. NumIn t = Inr k \<and> 0 \<le> i \<and> i < k)) \<and>
   (Out t i = Inr r \<longrightarrow> Kind t = Func \<and> (\<exists>k. NumOut t = Inr k \<and> 0 \<le> i \<and> i < k))"
proof -
  have nonfunc: "Kind t \<noteq> Func \<Longrightarrow>
      In t i = Inl (Xerrorf ''In of non-func type %v'') \<and>
      Out t i = Inl (Xerrorf ''Out of non-func type %v'') \<and>
      NumIn t = Inl (Xerrorf ''NumIn of non-func type %v'') \<and>
      NumOut t = Inl (Xerrorf ''NumOut of non-func type %v'') \<and>
      Recv t = Inl (Xerrorf ''Recv of non-func type %v'') \<and>
      IsVariadic t = Inl (Xerrorf ''In of non-func type %v'') \<and>
      IsMethod t = Inl (Xerrorf ''IsMethod of non-func type %v'')"
    by (simp add: In_def Out_def NumIn_def NumOut_def Recv_def IsVariadic_def IsMethod_def)
  have in_range: "Kind t = Func \<Longrightarrow> NumIn t = Inr n \<Longrightarrow> \<not> (0 \<le> i \<and> i < n) \<Longrightarrow>
      In t i = Inl (RuntimePanic ''index out of range'')"
    by (auto simp: In_def NumIn_def Tuple_At_def Tuple_Len_def index_def split: sum.splits)
  have out_range: "Kind t = Func \<Longrightarrow> NumOut t = Inr m \<Longrightarrow> \<not> (0 \<le> i \<and> i < m) \<Longrightarrow>
      Out t i = Inl (RuntimePanic ''index out of range'')"
    by (auto simp: Out_def NumOut_def Tuple_At_def Tuple_Len_def index_def split: sum.splits)
  have in_ok: "In t i = Inr r \<Longrightarrow> Kind t = Func \<and> (\<exists>k. NumIn t = Inr k \<and> 0 \<le> i \<and> i < k)"
    by (auto simp: In_def NumIn_def Tuple_At_def Tuple_Len_def index_def
             split: sum.splits if_splits)
  have out_ok: "Out t i = Inr r \<Longrightarrow> Kind t = Func \<and> (\<exists>k. NumOut t = Inr k \<and> 0 \<le> i \<and> i < k)"
    by (auto simp: Out_def NumOut_def Tuple_At_def Tuple_Len_def index_def
             split: sum.splits if_splits)
  show ?thesis
    using nonfunc in_range out_range in_ok out_ok by blast
qed

theorem accessors_reject_non_func_and_bad_index_witness:
  "In intType 0 = Inl (Xerrorf ''In of non-func type %v'') \<and>
   Out intType 0 = Inl (Xerrorf ''Out of non-func type %v'') \<and>
   NumIn intType = Inl (Xerrorf ''NumIn of non-func type %v'') \<and>
   NumOut intType = Inl (Xerrorf ''NumOut of non-func type %v'') \<and>
   Recv intType = Inl (Xerrorf ''Recv of non-func type %v'') \<and>
   IsVariadic intType = Inl (Xerrorf ''In of non-func type %v'') \<and>
   IsMethod intType = Inl (Xerrorf ''IsMethod of non-func type %v'') \<and>
   NumIn funcType = Inr 1 \<and> NumOut funcType = Inr 1 \<and>
   In funcType 1 = Inl (RuntimePanic ''index out of range'') \<and>
   Out funcType (- 1) = Inl (RuntimePanic ''index out of range'') \<and>
   In funcType 0 = Inr intType \<and> Out funcType 0 = Inr boolType"
proof -
  have k: "Kind intType \<noteq> Func" "Kind funcType = Func"
    by (simp_all add: Kind_def example_types MakeType_def)
  have n: "NumIn funcType = Inr 1" "NumOut funcType = Inr 1"
    by (simp_all add: NumIn_def NumOut_def Kind_def underlying_def Tuple_Len_def
          example_types MakeType_def)
  have i: "In funcType 0 = Inr intType" "Out funcType 0 = Inr boolType"
    by (simp_all add: In_def Out_def Kind_def underlying_def Tuple_At_def index_def
          reflect_In_def reflect_Out_def example_types MakeType_def)
  show ?thesis
    using accessors_reject_non_func_and_bad_index [where t = intType and i = 0]
      accessors_reject_non_func_and_bad_index [where t = funcType and i = 1 and n = 1]
      accessors_reject_non_func_and_bad_index [where t = funcType and i = "- 1" and m = 1]
      k n i
    by simp
qed

text \<open>
  C3. For a method type \<open>In(i)\<close> returns the runtime descriptor at position \<open>i + 1\<close> of
  the runtime parameter list (the receiver is at position 0), for a function type
  without receiver the one at position \<open>i\<close>. For a type built by \<open>MethodOf\<close> and an
  index \<open>i\<close> in \<open>[0, NumIn())\<close> the call does return, and gives back the descriptors of
  the \<open>i\<close>-th declared parameter; in general it returns whenever the runtime
  parameter list has one entry per declared parameter plus one for the receiver.
\<close>

theorem In_applies_receiver_offset:
  "(IsMethod t = Inr True \<and> In t i = Inr r \<longrightarrow>
      reflect_In (rtype t) (i + 1) = Inr (rtype r)) \<and>
   (IsMethod t = Inr False \<and> In t i = Inr r \<longrightarrow>
      reflect_In (rtype t) i = Inr (rtype r)) \<and>
   (Universe_MethodOf v (Some recv) (map Some xs) outs variadic = Inr t \<and>
      0 \<le> i \<and> i < int (length xs) \<longrightarrow>
      IsMethod t = Inr True \<and> NumIn t = Inr (int (length xs)) \<and>
      reflect_In (rtype t) 0 = Inr (rtype recv) \<and>
      reflect_In (rtype t) (i + 1) = Inr (rtype (xs ! nat i)) \<and>
      In t i = Inr (MakeType v (gtype (xs ! nat i)) (rtype (xs ! nat i)))) \<and>
   (Universe_MethodOf v None (map Some xs) outs variadic = Inr t \<and>
      0 \<le> i \<and> i < int (length xs) \<longrightarrow>
      IsMethod t = Inr False \<and> NumIn t = Inr (int (length xs)) \<and>
      reflect_In (rtype t) i = Inr (rtype (xs ! nat i)) \<and>
      In t i = Inr (MakeType v (gtype (xs ! nat i)) (rtype (xs ! nat i)))) \<and>
   (Kind t = Func \<and> underlying t = Signature rcv params results va \<and>
      reflect_underlying (rtype t) = RFunc rins routs rv \<and>
      length rins = length params + (if rcv \<noteq> None then 1 else 0) \<and>
      0 \<le> i \<and> i < int (length params) \<longrightarrow>
      In t i = Inr (MakeType (universe t) (Var_Type (params ! nat i))
                     (rins ! nat (if rcv \<noteq> None then i + 1 else i))))"
proof -
  have a: "IsMethod t = Inr True \<Longrightarrow> In t i = Inr r \<Longrightarrow>
      reflect_In (rtype t) (i + 1) = Inr (rtype r)"
    by (cases "gtype t")
       (auto simp: IsMethod_def In_def underlying_def MakeType_def
             split: if_splits sum.splits)
  have b: "IsMethod t = Inr False \<Longrightarrow> In t i = Inr r \<Longrightarrow>
      reflect_In (rtype t) i = Inr (rtype r)"
    by (cases "gtype t")
       (auto simp: IsMethod_def In_def underlying_def MakeType_def
             split: if_splits sum.splits)
  have c: "IsMethod t = Inr True \<and> NumIn t = Inr (int (length xs)) \<and>
      reflect_In (rtype t) 0 = Inr (rtype recv) \<and>
      reflect_In (rtype t) (i + 1) = Inr (rtype (xs ! nat i)) \<and>
      In t i = Inr (MakeType v (gtype (xs ! nat i)) (rtype (xs ! nat i)))"
    if h: "Universe_MethodOf v (Some recv) (map Some xs) outs variadic = Inr t"
      and i: "0 \<le> i" "i < int (length xs)"
  proof -
    from Universe_MethodOf_Inr [OF h] obtain gout rout where
      t: "t = MakeType v
                (Signature (Some (NewParam [] (gtype recv)))
                   (map (\<lambda>t. NewParam [] (gtype t)) xs) gout variadic)
                (RFunc (rtype recv # map rtype xs) rout variadic)"
      by (auto simp: toGoTuple_Some toReflectTypes_Some)
    from i have n: "nat (i + 1) = Suc (nat i)" "nat i < length xs" by linarith+
    show ?thesis
      using i n unfolding t
      by (simp add: IsMethod_def NumIn_def In_def Kind_def MakeType_def underlying_def
            Tuple_Len_def Tuple_At_def index_def reflect_In_def)
  qed
  have d: "IsMethod t = Inr False \<and> NumIn t = Inr (int (length xs)) \<and>
      reflect_In (rtype t) i = Inr (rtype (xs ! nat i)) \<and>
      In t i = Inr (MakeType v (gtype (xs ! nat i)) (rtype (xs ! nat i)))"
    if h: "Universe_MethodOf v None (map Some xs) outs variadic = Inr t"
      and i: "0 \<le> i" "i < int (length xs)"
  proof -
    from Universe_MethodOf_Inr [OF h] obtain gout rout where
      t: "t = MakeType v
                (Signature None (map (\<lambda>t. NewParam [] (gtype t)) xs) gout variadic)
                (RFunc (map rtype xs) rout variadic)"
      by (auto simp: toGoTuple_Some toReflectTypes_Some)
    from i have n: "nat i < length xs" by linarith
    show ?thesis
      using i n unfolding t
      by (simp add: IsMethod_def NumIn_def In_def Kind_def MakeType_def underlying_def
            Tuple_Len_def Tuple_At_def index_def reflect_In_def)
  qed
  have e: "In t i = Inr (MakeType (universe t) (Var_Type (params ! nat i))
                     (rins ! nat (if rcv \<noteq> None then i + 1 else i)))"
    if "Kind t = Func" "underlying t = Signature rcv params results va"
      "reflect_underlying (rtype t) = RFunc rins routs rv"
      "length rins = length params + (if rcv \<noteq> None then 1 else 0)"
      "0 \<le> i" "i < int (length params)"
    using In_positions [OF that(1) that(2) that(3) that(5) that(6) that(4)] .
  show ?thesis
    using a b c d e by blast
qed


theorem In_applies_receiver_offset_witness:
  "Universe_MethodOf (Universe 1) (Some recvType) (map Some [intType]) [] False = Inr methodType \<and>
   IsMethod methodType = Inr True \<and> NumIn methodType = Inr 1 \<and>
   reflect_In (rtype methodType) 0 = Inr (rtype recvType) \<and>
   reflect_In (rtype methodType) 1 = Inr (rtype intType) \<and>
   In methodType 0 = Inr (MakeType (Universe 1) (gtype intType) (rtype intType)) \<and>
   Universe_MethodOf universe_global None (map Some [intType]) [Some boolType] False = Inr funcType \<and>
   IsMethod funcType = Inr False \<and>
   reflect_In (rtype funcType) 0 = Inr (rtype intType) \<and>
   In funcType 0 = Inr intType"
proof -
  have m: "intType = MakeType universe_global (gtype intType) (rtype intType)"
    by (simp add: example_types MakeType_def)
  show ?thesis
    using In_applies_receiver_offset [where v = "Universe 1" and recv = recvType and xs = "[intType]" and outs = "[]"
        and variadic = False and t = methodType and i = 0]
      In_applies_receiver_offset [where v = universe_global and xs = "[intType]" and outs = "[Some boolType]"
        and variadic = False and t = funcType and i = 0]
      Universe_MethodOf_example Universe_FuncOf_example m
    by simp
qed

text \<open>
  C4. \<open>MethodOf\<close> with a non-nil receiver builds a type whose runtime parameter list is
  the receiver's runtime descriptor followed by those of \<open>in\<close>, so its runtime
  parameter count is \<open>len(in) + 1\<close>, while \<open>NumIn()\<close> of the result is \<open>len(in)\<close>.
  With non-nil parameter and result types, at most 128 runtime parameters and results
  and, if \<open>variadic\<close>, an unnamed slice as last parameter, the type is built. In
  particular
  \<open>MethodOf(recv, [p], [], false).NumIn() = 1\<close> with runtime parameter count 2.
\<close>

theorem MethodOf_prepends_receiver:
  "(Universe_MethodOf v (Some recv) ins outs variadic = Inr t \<longrightarrow>
      (\<exists>rin rout. toReflectTypes ins = Inr rin \<and> toReflectTypes outs = Inr rout \<and>
         length rin = length ins \<and> rtype t = RFunc (rtype recv # rin) rout variadic) \<and>
      reflect_NumIn (rtype t) = Inr (int (length ins) + 1) \<and>
      NumIn t = Inr (int (length ins))) \<and>
   ((variadic \<longrightarrow>
       xs \<noteq> [] \<and> is_SliceOf (gtype (last xs)) \<and> reflect_Kind_of (rtype (last xs)) = Slice) \<and>
    length xs + length ys < 128 \<longrightarrow>
      (\<exists>t'. Universe_MethodOf v (Some recv) (map Some xs) (map Some ys) variadic = Inr t' \<and>
         rtype t' = RFunc (rtype recv # map rtype xs) (map rtype ys) variadic)) \<and>
   MethodOf (Some recv) ins outs variadic =
     Universe_MethodOf (universe recv) (Some recv) ins outs variadic \<and>
   andThen (MethodOf (Some recv) [Some p] [] False) NumIn = Inr 1 \<and>
   andThen (MethodOf (Some recv) [Some p] [] False) (\<lambda>t. reflect_NumIn (rtype t)) = Inr 2"
proof -
  have a: "(\<exists>rin rout. toReflectTypes ins = Inr rin \<and> toReflectTypes outs = Inr rout \<and>
         length rin = length ins \<and> rtype t = RFunc (rtype recv # rin) rout variadic) \<and>
      reflect_NumIn (rtype t) = Inr (int (length ins) + 1) \<and>
      NumIn t = Inr (int (length ins))"
    if h: "Universe_MethodOf v (Some recv) ins outs variadic = Inr t"
  proof -
    from Universe_MethodOf_Inr [OF h] obtain gin gout rin rout where
      g: "toGoTuple ins = Inr gin" "toGoTuple outs = Inr gout"
      and r: "toReflectTypes ins = Inr rin" "toReflectTypes outs = Inr rout"
      and t: "t = MakeType v (Signature (Some (NewParam [] (gtype recv))) gin gout variadic)
                    (RFunc (rtype recv # rin) rout variadic)"
      by auto
    have lr: "length rin = length ins" using toReflectTypes_Inr [OF r(1)] by simp
    have lg: "length gin = length ins" using toGoTuple_Inr [OF g(1)] by simp
    have "rtype t = RFunc (rtype recv # rin) rout variadic"
      by (simp add: t MakeType_def)
    moreover have "reflect_NumIn (rtype t) = Inr (int (length ins) + 1)"
      by (simp add: t MakeType_def reflect_NumIn_def lr)
    moreover have "NumIn t = Inr (int (length ins))"
      by (simp add: t NumIn_MakeType_Signature lg)
    ultimately show ?thesis using r lr by blast
  qed
  have b: "\<exists>t'. Universe_MethodOf v (Some recv) (map Some xs) (map Some ys) variadic = Inr t' \<and>
         rtype t' = RFunc (rtype recv # map rtype xs) (map rtype ys) variadic"
    if "variadic \<longrightarrow>
          xs \<noteq> [] \<and> is_SliceOf (gtype (last xs)) \<and> reflect_Kind_of (rtype (last xs)) = Slice"
      "length xs + length ys < 128"
    using that Universe_MethodOf_ok [of variadic xs ys "Some recv" v]
    by (simp add: MakeType_def)
  have c: "MethodOf (Some recv) ins outs variadic =
     Universe_MethodOf (universe recv) (Some recv) ins outs variadic"
    by (simp add: MethodOf_def)
  have d: "MethodOf (Some recv) [Some p] [] False =
     Inr (MakeType (universe recv)
            (Signature (Some (NewParam [] (gtype recv))) [NewParam [] (gtype p)] [] False)
            (RFunc [rtype recv, rtype p] [] False))"
    using Universe_MethodOf_ok [of False "[p]" "[]" "Some recv" "universe recv"]
    by (simp add: MethodOf_def)
  have e: "andThen (MethodOf (Some recv) [Some p] [] False) NumIn = Inr 1"
    by (simp add: d andThen_Inr NumIn_MakeType_Signature)
  have f: "andThen (MethodOf (Some recv) [Some p] [] False)
             (\<lambda>t. reflect_NumIn (rtype t)) = Inr 2"
    by (simp add: d andThen_Inr MakeType_def reflect_NumIn_def)
  show ?thesis
    using a b c e f by blast
qed

theorem MethodOf_prepends_receiver_witness:
  "MethodOf (Some recvType) [Some intType] [] False = Inr methodType \<and>
   rtype methodType = RFunc [rtype recvType, rtype intType] [] False \<and>
   reflect_NumIn (rtype methodType) = Inr 2 \<and>
   NumIn methodType = Inr 1"
proof -
  have u: "universe recvType = Universe 1"
    by (simp add: example_types MakeType_def)
  have h: "Universe_MethodOf (Universe 1) (Some recvType) [Some intType] [] False = Inr methodType"
    using Universe_MethodOf_example by simp
  show ?thesis
    using MethodOf_prepends_receiver [where v = "Universe 1" and recv = recvType and ins = "[Some intType]"
        and outs = "[]" and variadic = False and t = methodType and xs = "[intType]"
        and ys = "[]" and p = intType] h u
    by (auto simp: andThen_def)
qed

text \<open>
  C5. Whenever the package-level \<open>MethodOf\<close> builds a type, the universe that owns it is
  the receiver's universe if the receiver is non-nil, else the universe of \<open>in[0]\<close>, else
  that of \<open>out[0]\<close>, else the default global universe; and this is the universe of the
  specification's preference order, since a type is only built from non-nil input and
  output types.
\<close>

theorem MethodOf_owner_universe:
  "MethodOf recv ins outs variadic = Inr t \<longrightarrow>
     universe t =
       (case recv of
          Some r \<Rightarrow> universe r
        | None \<Rightarrow>
            (case ins of
               Some x # _ \<Rightarrow> universe x
             | _ \<Rightarrow> (case outs of Some y # _ \<Rightarrow> universe y | _ \<Rightarrow> universe_global))) \<and>
     universe t = preferred_universe recv ins outs"
proof
  assume h: "MethodOf recv ins outs variadic = Inr t"
  let ?v = "case recv of
          Some r \<Rightarrow> universe r
        | None \<Rightarrow>
            (case ins of
               Some x # _ \<Rightarrow> universe x
             | _ \<Rightarrow> (case outs of Some y # _ \<Rightarrow> universe y | _ \<Rightarrow> universe_global))"
  from h have m: "Universe_MethodOf ?v recv ins outs variadic = Inr t"
    by (simp add: MethodOf_def)
  have u: "universe t = ?v"
    by (rule Universe_MethodOf_universe [OF m])
  from Universe_MethodOf_non_nil [OF m] obtain xs ys where
    xs: "ins = map Some xs" and ys: "outs = map Some ys"
    by blast
  have "preferred_universe recv ins outs = ?v"
    unfolding xs ys
    by (cases recv; cases xs; cases ys)
       (simp_all add: preferred_universe_def first_non_nil_def)
  with u show "universe t = ?v \<and> universe t = preferred_universe recv ins outs"
    by simp
qed

theorem MethodOf_owner_universe_witness:
  "MethodOf (Some recvType) [Some intType] [Some stringType2] False =
     Universe_MethodOf (Universe 1) (Some recvType) [Some intType] [Some stringType2] False \<and>
   andThen (MethodOf (Some recvType) [Some intType] [Some stringType2] False)
     (\<lambda>t. Inr (universe t)) = Inr (Universe 1) \<and>
   andThen (MethodOf None [Some stringType2] [Some intType] False)
     (\<lambda>t. Inr (universe t)) = Inr (Universe 2) \<and>
   andThen (MethodOf None [] [Some stringType2] False)
     (\<lambda>t. Inr (universe t)) = Inr (Universe 2) \<and>
   andThen (MethodOf None [] [] False)
     (\<lambda>t. Inr (universe t)) = Inr universe_global"
proof -
  have ok: "\<exists>t. MethodOf recv (map Some xs) (map Some ys) False = Inr t"
    if "length xs + length ys < 10" for recv xs ys
    using that Universe_MethodOf_ok [of False xs ys recv]
    by (cases recv) (simp_all add: MethodOf_def)
  have 1: "\<exists>t. MethodOf (Some recvType) [Some intType] [Some stringType2] False = Inr t"
    using ok [of "[intType]" "[stringType2]" "Some recvType"] by simp
  have 2: "\<exists>t. MethodOf None [Some stringType2] [Some intType] False = Inr t"
    using ok [of "[stringType2]" "[intType]" None] by simp
  have 3: "\<exists>t. MethodOf None [] [Some stringType2] False = Inr t"
    using ok [of "[]" "[stringType2]" None] by simp
  have 4: "\<exists>t. MethodOf None [] [] False = Inr t"
    using ok [of "[]" "[]" None] by simp
  have u: "universe recvType = Universe 1" "universe stringType2 = Universe 2"
    by (simp_all add: example_types MakeType_def)
  have a: "andThen (MethodOf (Some recvType) [Some intType] [Some stringType2] False)
     (\<lambda>t. Inr (universe t)) = Inr (Universe 1)"
    using 1 MethodOf_owner_universe [where recv = "Some recvType" and ins = "[Some intType]"
        and outs = "[Some stringType2]" and variadic = False] u
    by (auto simp: andThen_def)
  have b: "andThen (MethodOf None [Some stringType2] [Some intType] False)
     (\<lambda>t. Inr (universe t)) = Inr (Universe 2)"
    using 2 MethodOf_owner_universe [where recv = None and ins = "[Some stringType2]"
        and outs = "[Some intType]" and variadic = False] u
    by (auto simp: andThen_def)
  have c: "andThen (MethodOf None [] [Some stringType2] False)
     (\<lambda>t. Inr (universe t)) = Inr (Universe 2)"
    using 3 MethodOf_owner_universe [where recv = None and ins = "[]"
        and outs = "[Some stringType2]" and variadic = False] u
    by (auto simp: andThen_def)
  have d: "andThen (MethodOf None [] [] False)
     (\<lambda>t. Inr (universe t)) = Inr universe_global"
    using 4 MethodOf_owner_universe [where recv = None and ins = "[]" and outs = "[]" and variadic = False]
    by (auto simp: andThen_def)
  have e: "MethodOf (Some recvType) [Some intType] [Some stringType2] False =
     Universe_MethodOf (Universe 1) (Some recvType) [Some intType] [Some stringType2] False"
    by (simp add: MethodOf_def u)
  show ?thesis using a b c d e by simp
qed

text \<open>
  C10. \<open>FuncOf(in, out, variadic)\<close> is \<open>MethodOf(nil, in, out, variadic)\<close>, for the package
  function and for the method of a universe alike; the type it builds has no receiver.
\<close>

theorem FuncOf_is_MethodOf_nil:
  "FuncOf ins outs variadic = MethodOf None ins outs variadic \<and>
   Universe_FuncOf v ins outs variadic = Universe_MethodOf v None ins outs variadic \<and>
   (FuncOf ins outs variadic = Inr t \<longrightarrow> Recv t = Inr None \<and> IsMethod t = Inr False) \<and>
   (Universe_FuncOf v ins outs variadic = Inr t \<longrightarrow> Recv t = Inr None \<and> IsMethod t = Inr False)"
proof -
  have r: "Recv t = Inr None \<and> IsMethod t = Inr False"
    if "Universe_MethodOf u None ins outs variadic = Inr t" for u
    using Universe_MethodOf_Inr [OF that]
    by (auto simp: Recv_def IsMethod_def Kind_def MakeType_def underlying_def)
  show ?thesis
    using r by (auto simp: FuncOf_def Universe_FuncOf_def MethodOf_def Let_def)
qed


theorem FuncOf_is_MethodOf_nil_witness:
  "FuncOf [Some intType] [Some boolType] False = Inr funcType \<and>
   MethodOf None [Some intType] [Some boolType] False = Inr funcType \<and>
   Recv funcType = Inr None \<and> IsMethod funcType = Inr False"
  using FuncOf_is_MethodOf_nil [where ins = "[Some intType]" and outs = "[Some boolType]" and variadic = False
      and t = funcType] FuncOf_example
  by simp


section \<open>Properties of the compiled assignments\<close>

lemma advance_Inr:
  "(advance e = Inr (next, env')) =
   (env' = e\<lparr>IP := IP e + 1\<rparr> \<and> index (Code e) (IP e + 1) = Inr next)"
  by (auto simp: advance_def Let_def andThen_eq_Inr)


lemma store_control [simp]: "IP (store e a d) = IP e" "Code (store e a d) = Code e"
  by (simp_all add: store_def)

lemma store_conversions [simp]: "Conversions (store e a d) = Conversions e"
  by (simp add: store_def)

lemma converting_control [simp]: "IP (converting e) = IP e" "Code (converting e) = Code e"
  by (simp_all add: converting_def)

lemma converted_code [simp]: "CompCode (converted c) = CompCode c"
  by (simp add: converted_def)







lemma Set_shape:
  assumes "Value_Set e p x = Inr e'"
  shows "\<exists>a d. e' = store e a d"
proof (cases p)
  case (Ref t a)
  with assms obtain x' where
    "(case x' of
        Val t' d \<Rightarrow>
          (if t' = t then Inr (store e a d)
           else Inl (ReflectPanic ''reflect.Set: value is not assignable to type''))
      | _ \<Rightarrow> Inl (ReflectPanic ''reflect: call of reflect.Value.Set on zero Value'')) = Inr e'"
    by (auto simp: andThen_eq_Inr)
  then show ?thesis
    by (cases x') (auto split: if_splits)
qed (use assms in auto)


lemma mapassign_control:
  "mapassign e m kd ed = Inr e' \<Longrightarrow>
     IP e' = IP e \<and> Code e' = Code e \<and> Conversions e' = Conversions e"
  by (cases m) (auto split: option.splits)

lemma mapdelete_control:
  "mapdelete e m kd = Inr e' \<Longrightarrow>
     IP e' = IP e \<and> Code e' = Code e \<and> Conversions e' = Conversions e"
  by (cases m) (auto split: option.splits)

lemma map_store_control:
  "map_store e et m kd elem = Inr e' \<Longrightarrow>
     IP e' = IP e \<and> Code e' = Code e \<and> Conversions e' = Conversions e"
  by (cases elem) (auto split: if_splits dest: mapassign_control mapdelete_control)

lemma map_index_control:
  "map_index e t m key elem = Inr e' \<Longrightarrow>
     IP e' = IP e \<and> Code e' = Code e \<and> Conversions e' = Conversions e"
  by (cases t; cases key) (auto split: if_splits dest: map_store_control)

lemma SetMapIndex_keeps:
  assumes "SetMapIndex e obj key elem = Inr e'"
  shows "IP e' = IP e \<and> Code e' = Code e \<and> Conversions e' = Conversions e"
proof -
  from assms obtain obj' key' elem' where
    "(case obj' of
        Val t m \<Rightarrow> map_index e (reflect_underlying t) m key' elem'
      | _ \<Rightarrow> Inl (ReflectPanic ''reflect: call of reflect.Value.SetMapIndex on zero Value''))
     = Inr e'"
    by (auto simp: SetMapIndex_def andThen_eq_Inr)
  then show ?thesis
    by (cases obj') (auto dest: map_index_control)
qed


lemma SetBool_conversions: "Value_SetBool e p x = Inr e' \<Longrightarrow> Conversions e' = Conversions e"
  by (cases p) (auto split: if_splits)

lemma SetInt_conversions: "Value_SetInt e p x = Inr e' \<Longrightarrow> Conversions e' = Conversions e"
  by (cases p) (auto split: if_splits)

lemma SetUint_conversions: "Value_SetUint e p x = Inr e' \<Longrightarrow> Conversions e' = Conversions e"
  by (cases p) (auto split: if_splits)

lemma SetFloat_conversions:
  "Value_SetFloat lib e p x = Inr e' \<Longrightarrow> Conversions e' = Conversions e"
  by (cases p) (auto split: if_splits)

lemma SetComplex_conversions:
  "Value_SetComplex lib e p x = Inr e' \<Longrightarrow> Conversions e' = Conversions e"
  by (cases p) (auto split: if_splits)

lemma SetString_conversions:
  "Value_SetString e p x = Inr e' \<Longrightarrow> Conversions e' = Conversions e"
  by (cases p) (auto split: if_splits)

lemma Set_conversions: "Value_Set e p x = Inr e' \<Longrightarrow> Conversions e' = Conversions e"
  by (drule Set_shape) auto






lemmas setter_conversions =
  SetBool_conversions SetInt_conversions SetUint_conversions SetFloat_conversions
  SetComplex_conversions SetString_conversions Set_conversions



lemma setplaces_const_converts_nothing:
  assumes "setplaces_const lib t lhs v = Inr stmt" "stmt env = Inr (next, env')"
  shows "\<exists>obj e1. lhs env = Inr (obj, e1) \<and> Conversions env' = Conversions e1"
  using assms
  unfolding setplaces_const_def Let_def
  by (auto simp: andThen_eq_Inr advance_Inr split: if_splits dest!: setter_conversions)







lemma placeSetConst_shape:
  assumes "placeSetConst lib c place val = Inr c'"
  shows "\<exists>v stmt.
          (if ValueType (ValueOf val) = None then Inr (Zero (Type place))
           else Convert lib (ValueOf val) (Type place)) = Inr v \<and>
          c' = Append (if ValueType (ValueOf val) = None then c else converted c) stmt \<and>
          (case MapKey place of
             Some mapkey \<Rightarrow> stmt = (\<lambda>env.
               andThen (Fun place env) (\<lambda>(obj, env).
               andThen (mapkey env) (\<lambda>(key, env).
               andThen (SetMapIndex env obj key v) advance)))
           | None \<Rightarrow> setplaces_const lib (Type place) (Fun place) v = Inr stmt)"
  using assms
  unfolding placeSetConst_def Let_def
  by (cases "MapKey place"; cases "ValueType (ValueOf val)")
     (auto simp: andThen_eq_Inr)


lemma placeSetConst_counts:
  assumes "placeSetConst lib c place val = Inr c'"
  shows "CompConversions c' =
         CompConversions c + (if ValueType (ValueOf val) = None then 0 else 1)"
  using placeSetConst_shape [OF assms]
  by (auto simp: Append_def converted_def)

lemma placeSetConst_converts_nothing:
  assumes "placeSetConst lib c place val = Inr c'"
  shows "\<exists>stmt. CompCode c' = CompCode c @ [stmt] \<and>
          (\<forall>env next env'. stmt env = Inr (next, env') \<longrightarrow>
             (\<exists>obj e1. Fun place env = Inr (obj, e1) \<and>
                (case MapKey place of
                   None \<Rightarrow> Conversions env' = Conversions e1
                 | Some mapkey \<Rightarrow>
                     (\<exists>key e2. mapkey e1 = Inr (key, e2) \<and>
                        Conversions env' = Conversions e2))))"
proof -
  from placeSetConst_shape [OF assms] obtain v stmt where
    c: "c' = Append (if ValueType (ValueOf val) = None then c else converted c) stmt"
    and s: "case MapKey place of
             Some mapkey \<Rightarrow> stmt = (\<lambda>env.
               andThen (Fun place env) (\<lambda>(obj, env).
               andThen (mapkey env) (\<lambda>(key, env).
               andThen (SetMapIndex env obj key v) advance)))
           | None \<Rightarrow> setplaces_const lib (Type place) (Fun place) v = Inr stmt"
    by (elim exE conjE) (erule that)
  have cc: "CompCode c' = CompCode c @ [stmt]"
    by (simp add: c Append_def)
  have "\<exists>obj e1. Fun place env = Inr (obj, e1) \<and>
                (case MapKey place of
                   None \<Rightarrow> Conversions env' = Conversions e1
                 | Some mapkey \<Rightarrow>
                     (\<exists>key e2. mapkey e1 = Inr (key, e2) \<and>
                        Conversions env' = Conversions e2))"
    if r: "stmt env = Inr (next, env')" for env "next" env'
  proof (cases "MapKey place")
    case None
    with s have s': "setplaces_const lib (Type place) (Fun place) v = Inr stmt"
      by simp
    show ?thesis
      using setplaces_const_converts_nothing [OF s' r] None by simp
  next
    case (Some mapkey)
    with s r show ?thesis
      by (auto simp: andThen_eq_Inr advance_Inr dest!: SetMapIndex_keeps)
  qed
  with cc show ?thesis
    by blast
qed


lemma SetFloat_float32:
  "float32 lib' = float32 lib \<Longrightarrow> Value_SetFloat lib' = Value_SetFloat lib"
  by (intro ext, case_tac xa) simp_all

lemma SetComplex_float32:
  "float32 lib' = float32 lib \<Longrightarrow> Value_SetComplex lib' = Value_SetComplex lib"
  by (intro ext, case_tac xa) simp_all

lemma setplaces_const_float32:
  assumes "float32 lib' = float32 lib"
  shows "setplaces_const lib' t lhs v = setplaces_const lib t lhs v"
  by (simp add: setplaces_const_def Let_def SetFloat_float32 [OF assms]
        SetComplex_float32 [OF assms])

lemma placeSetConst_staged:
  assumes "float32 lib' = float32 lib"
    and "ValueType (ValueOf val) \<noteq> None \<Longrightarrow>
           Convert lib' (ValueOf val) (Type place) = Convert lib (ValueOf val) (Type place)"
  shows "placeSetConst lib' c place val = placeSetConst lib c place val"
  using assms(2)
  by (cases "ValueType (ValueOf val)")
     (simp_all add: placeSetConst_def Let_def setplaces_const_float32 [OF assms(1)]
        cong: option.case_cong)

lemma placeSetConst_conversion_panics:
  assumes "ValueType (ValueOf val) \<noteq> None" "Convert lib (ValueOf val) (Type place) = Inl e"
  shows "placeSetConst lib c place val = Inl e"
  using assms by (auto simp: placeSetConst_def Let_def andThen_Inl)

lemma KindToCategory_cases:
  "(KindToCategory k = Bool) = (k = Bool)"
  "(KindToCategory k = Int') = (k \<in> {Int', Int8, Int16, Int32, Int64})"
  "(KindToCategory k = Uint) = (k \<in> {Uint, Uint8, Uint16, Uint32, Uint64, Uintptr})"
  "(KindToCategory k = Float64) = (k \<in> {Float32, Float64})"
  "(KindToCategory k = Complex128) = (k \<in> {Complex64, Complex128})"
  "(KindToCategory k = String) = (k = String)"
  by (cases k; simp)+

lemma setplaces_const_default:
  assumes "reflect_Kind_of t \<notin> basic_kinds"
  shows "setplaces_const lib t lhs v =
         Inr (\<lambda>env.
          andThen (lhs env) (\<lambda>(place, env).
          andThen (Value_Set env place v) advance))"
  using assms
  by (simp add: setplaces_const_def KindToCategory_cases basic_kinds_def)

lemma setplaces_const_basic:
  assumes "fits_basic lib (reflect_Kind_of t) d"
  shows "\<exists>stmt. setplaces_const lib t lhs (Val t d) = Inr stmt \<and>
           (\<forall>env a e1. lhs env = Inr (Ref t a, e1) \<longrightarrow>
              stmt env = advance (store e1 a d))"
proof (cases d)
  case (DBool b)
  with assms show ?thesis
    by (simp add: setplaces_const_def KindToCategory_cases andThen_Inr)
next
  case (DInt i)
  with assms show ?thesis
    by (auto simp: setplaces_const_def KindToCategory_cases andThen_Inr)
next
  case (DUint u)
  with assms show ?thesis
    by (auto simp: setplaces_const_def KindToCategory_cases andThen_Inr)
next
  case (DFloat x)
  with assms show ?thesis
    by (auto simp: setplaces_const_def KindToCategory_cases andThen_Inr)
next
  case (DComplex re im)
  with assms show ?thesis
    by (auto simp: setplaces_const_def KindToCategory_cases andThen_Inr)
next
  case (DString s)
  with assms show ?thesis
    by (simp add: setplaces_const_def KindToCategory_cases andThen_Inr)
qed (use assms in simp_all)

lemma setplaces_const_proper:
  assumes "proper lib t v"
  shows "\<exists>stmt. setplaces_const lib t lhs v = Inr stmt \<and>
           (\<forall>env a e1. lhs env = Inr (Ref t a, e1) \<longrightarrow>
              stmt env = advance (store e1 a (Value_data v)))"
proof -
  from assms obtain d where v: "v = Val t d" and f: "fits lib (reflect_Kind_of t) d"
    by (cases v) auto
  show ?thesis
  proof (cases "reflect_Kind_of t \<in> basic_kinds")
    case True
    with f have "fits_basic lib (reflect_Kind_of t) d"
      by (simp add: fits_def)
    from setplaces_const_basic [OF this] show ?thesis
      by (simp add: v)
  next
    case False
    show ?thesis
      by (simp add: setplaces_const_default [OF False] v andThen_Inr)
  qed
qed

lemma heap_after_advance:
  "advance (store e a d) = Inr (next, env') \<Longrightarrow> Heap env' a = Some d"
  by (auto simp: advance_Inr store_def)

lemma SetMapIndex_stores:
  assumes "Maps e m = Some entries"
  shows "SetMapIndex e (Val (RMap kt et) (DMap m)) (Val kt kd) (Val et ed) =
         Inr (e\<lparr>Maps := (Maps e)(m \<mapsto> entries(kd \<mapsto> ed))\<rparr>)"
  using assms by (simp add: SetMapIndex_def andThen_Inr)

lemma placeSetConst_proper:
  assumes v: "(if ValueType (ValueOf val) = None then Inr (Zero (Type place))
               else Convert lib (ValueOf val) (Type place)) = Inr v"
    and p: "proper lib (Type place) v"
  shows "\<exists>stmt. placeSetConst lib c place val =
            Inr (Append (if ValueType (ValueOf val) = None then c else converted c) stmt) \<and>
          (MapKey place = None \<longrightarrow>
             (\<forall>env a e1. Fun place env = Inr (Ref (Type place) a, e1) \<longrightarrow>
                stmt env = advance (store e1 a (Value_data v)) \<and>
                (\<forall>next env'. stmt env = Inr (next, env') \<longrightarrow>
                   Heap env' a = Some (Value_data v)))) \<and>
          (\<forall>mapkey. MapKey place = Some mapkey \<longrightarrow>
             (\<forall>env kt m e1 kd e2 entries.
                Fun place env = Inr (Val (RMap kt (Type place)) (DMap m), e1) \<and>
                mapkey e1 = Inr (Val kt kd, e2) \<and> Maps e2 m = Some entries \<longrightarrow>
                stmt env =
                  advance (e2\<lparr>Maps := (Maps e2)(m \<mapsto> entries(kd \<mapsto> Value_data v))\<rparr>)))"
proof (cases "MapKey place")
  case None
  from setplaces_const_proper [OF p, of "Fun place"] obtain stmt where
    s: "setplaces_const lib (Type place) (Fun place) v = Inr stmt"
    and r: "\<forall>env a e1. Fun place env = Inr (Ref (Type place) a, e1) \<longrightarrow>
              stmt env = advance (store e1 a (Value_data v))"
    by blast
  have "placeSetConst lib c place val =
          Inr (Append (if ValueType (ValueOf val) = None then c else converted c) stmt)"
    using v s None
    by (auto simp: placeSetConst_def Let_def andThen_Inr split: if_splits)
  moreover have "\<forall>env a e1. Fun place env = Inr (Ref (Type place) a, e1) \<longrightarrow>
                stmt env = advance (store e1 a (Value_data v)) \<and>
                (\<forall>next env'. stmt env = Inr (next, env') \<longrightarrow>
                   Heap env' a = Some (Value_data v))"
    using r heap_after_advance by metis
  ultimately show ?thesis using None by auto
next
  case (Some mapkey)
  from p obtain d where vd: "v = Val (Type place) d"
    by (cases v) auto
  let ?stmt = "\<lambda>env.
            andThen (Fun place env) (\<lambda>(obj, env).
            andThen (mapkey env) (\<lambda>(key, env).
            andThen (SetMapIndex env obj key v) advance))"
  have "placeSetConst lib c place val =
          Inr (Append (if ValueType (ValueOf val) = None then c else converted c) ?stmt)"
    using v Some
    by (auto simp: placeSetConst_def Let_def andThen_Inr split: if_splits)
  moreover have "?stmt env =
      advance (e2\<lparr>Maps := (Maps e2)(m \<mapsto> entries(kd \<mapsto> Value_data v))\<rparr>)"
    if "Fun place env = Inr (Val (RMap kt (Type place)) (DMap m), e1)"
      "mapkey e1 = Inr (Val kt kd, e2)" "Maps e2 m = Some entries"
    for env kt m e1 kd e2 entries
    using that by (simp add: andThen_Inr vd SetMapIndex_stores)
  ultimately show ?thesis using Some by auto
qed

lemma zero_data_fits: "float32 lib 0 = 0 \<Longrightarrow> fits lib (reflect_Kind_of t) (zero_data t)"
  by (induction t rule: zero_data.induct)
     (auto simp: wrap_int_def wrap_uint_def fits_def basic_kinds_def)

lemma Zero_proper: "float32 lib 0 = 0 \<Longrightarrow> proper lib t (Zero t)"
  by (simp add: Zero_def zero_data_fits)

lemma map_const_stmt_returns:
  "(andThen (lhs env) (\<lambda>(obj, env).
    andThen (mapkey env) (\<lambda>(key, env).
    andThen (SetMapIndex env obj key v) advance)) = Inr (next, env')) =
   (\<exists>obj e1 key e2 e3.
      lhs env = Inr (obj, e1) \<and> mapkey e1 = Inr (key, e2) \<and>
      SetMapIndex e2 obj key v = Inr e3 \<and> advance e3 = Inr (next, env'))"
  by (auto simp: andThen_eq_Inr)

lemma map_expr_stmt_returns:
  "(andThen (lhs env) (\<lambda>(obj, env).
    andThen (mapkey env) (\<lambda>(key, env).
    andThen (rhs env) (\<lambda>(val, env).
    andThen (andThen (Value_Type val) (\<lambda>vt.
               if vt \<noteq> t then Value_Convert lib env val t else Inr (val, env)))
      (\<lambda>(val, env).
    andThen (SetMapIndex env obj key val) advance)))) = Inr (next, env')) =
   (\<exists>obj e1 key e2 val e3 val' e3' e4.
      lhs env = Inr (obj, e1) \<and> mapkey e1 = Inr (key, e2) \<and>
      rhs e2 = Inr (val, e3) \<and>
      andThen (Value_Type val) (\<lambda>vt.
        if vt \<noteq> t then Value_Convert lib e3 val t else Inr (val, e3)) = Inr (val', e3') \<and>
      SetMapIndex e3' obj key val' = Inr e4 \<and> advance e4 = Inr (next, env'))"
  by (simp add: andThen_eq_Inr [where m = "lhs env"]
        andThen_eq_Inr [where m = "mapkey e" for e]
        andThen_eq_Inr [where m = "rhs e" for e]
        andThen_eq_Inr [where f = "\<lambda>(val, env). andThen (SetMapIndex env obj key val) advance"
          for obj key]
        andThen_eq_Inr [where f = advance] split_paired_Ex)

lemma map_const_order:
  assumes m: "MapKey place = Some mapkey"
    and c: "placeSetConst lib c place val = Inr c'"
  shows "\<exists>v stmt.
          (if ValueType (ValueOf val) = None then Inr (Zero (Type place))
           else Convert lib (ValueOf val) (Type place)) = Inr v \<and>
          CompCode c' = CompCode c @ [stmt] \<and>
          (\<forall>env.
             (\<forall>next env'.
                (stmt env = Inr (next, env')) =
                (\<exists>obj e1 key e2 e3.
                   Fun place env = Inr (obj, e1) \<and> mapkey e1 = Inr (key, e2) \<and>
                   SetMapIndex e2 obj key v = Inr e3 \<and> advance e3 = Inr (next, env'))) \<and>
             (\<forall>e. Fun place env = Inl e \<longrightarrow> stmt env = Inl e) \<and>
             (\<forall>obj e1 e. Fun place env = Inr (obj, e1) \<and> mapkey e1 = Inl e \<longrightarrow>
                stmt env = Inl e))"
proof -
  let ?stmt = "\<lambda>v env.
            andThen (Fun place env) (\<lambda>(obj, env).
            andThen (mapkey env) (\<lambda>(key, env).
            andThen (SetMapIndex env obj key v) advance))"
  from placeSetConst_shape [OF c] m obtain v where
    v: "(if ValueType (ValueOf val) = None then Inr (Zero (Type place))
           else Convert lib (ValueOf val) (Type place)) = Inr v"
    and c': "c' = Append (if ValueType (ValueOf val) = None then c else converted c) (?stmt v)"
    by auto
  have 1: "(?stmt v env = Inr (next, env')) =
           (\<exists>obj e1 key e2 e3.
              Fun place env = Inr (obj, e1) \<and> mapkey e1 = Inr (key, e2) \<and>
              SetMapIndex e2 obj key v = Inr e3 \<and> advance e3 = Inr (next, env'))"
    for env "next" env'
    by (rule map_const_stmt_returns)
  have 2: "Fun place env = Inl e \<longrightarrow> ?stmt v env = Inl e" for env e
    by (simp add: andThen_Inl)
  have 3: "Fun place env = Inr (obj, e1) \<and> mapkey e1 = Inl e \<longrightarrow> ?stmt v env = Inl e"
    for env obj e1 e
    by (simp add: andThen_Inl andThen_Inr)
  have cc: "CompCode c' = CompCode c @ [?stmt v]"
    by (simp add: c' Append_def)
  have main: "(if ValueType (ValueOf val) = None then Inr (Zero (Type place))
           else Convert lib (ValueOf val) (Type place)) = Inr v \<and>
          CompCode c' = CompCode c @ [?stmt v] \<and>
          (\<forall>env.
             (\<forall>next env'.
                (?stmt v env = Inr (next, env')) =
                (\<exists>obj e1 key e2 e3.
                   Fun place env = Inr (obj, e1) \<and> mapkey e1 = Inr (key, e2) \<and>
                   SetMapIndex e2 obj key v = Inr e3 \<and> advance e3 = Inr (next, env'))) \<and>
             (\<forall>e. Fun place env = Inl e \<longrightarrow> ?stmt v env = Inl e) \<and>
             (\<forall>obj e1 e. Fun place env = Inr (obj, e1) \<and> mapkey e1 = Inl e \<longrightarrow>
                ?stmt v env = Inl e))"
    by (intro conjI allI) (rule v cc 1 2 3)+
  show ?thesis
    by (rule exI [where x = v], rule exI [where x = "?stmt v"], rule main)
qed

lemma map_expr_order:
  assumes m: "MapKey place = Some mapkey"
    and c: "placeSetExpr lib c place fn = Inr c'"
  shows "\<exists>rhs stmt.
          funAsX1 fn = Inr rhs \<and> CompCode c' = CompCode c @ [stmt] \<and>
          (\<forall>env.
             (\<forall>next env'.
                (stmt env = Inr (next, env')) =
                (\<exists>obj e1 key e2 val e3 val' e3' e4.
                   Fun place env = Inr (obj, e1) \<and> mapkey e1 = Inr (key, e2) \<and>
                   rhs e2 = Inr (val, e3) \<and>
                   andThen (Value_Type val) (\<lambda>vt.
                     if vt \<noteq> Type place then Value_Convert lib e3 val (Type place)
                     else Inr (val, e3)) = Inr (val', e3') \<and>
                   SetMapIndex e3' obj key val' = Inr e4 \<and> advance e4 = Inr (next, env'))) \<and>
             (\<forall>e. Fun place env = Inl e \<longrightarrow> stmt env = Inl e) \<and>
             (\<forall>obj e1 e. Fun place env = Inr (obj, e1) \<and> mapkey e1 = Inl e \<longrightarrow>
                stmt env = Inl e) \<and>
             (\<forall>obj e1 key e2 e.
                Fun place env = Inr (obj, e1) \<and> mapkey e1 = Inr (key, e2) \<and> rhs e2 = Inl e \<longrightarrow>
                stmt env = Inl e))"
proof -
  let ?stmt = "\<lambda>rhs env.
            andThen (Fun place env) (\<lambda>(obj, env).
            andThen (mapkey env) (\<lambda>(key, env).
            andThen (rhs env) (\<lambda>(val, env).
            andThen (andThen (Value_Type val) (\<lambda>vt.
                       if vt \<noteq> Type place then Value_Convert lib env val (Type place)
                       else Inr (val, env)))
              (\<lambda>(val, env).
            andThen (SetMapIndex env obj key val) advance))))"
  from m c obtain rhs where
    rhs: "funAsX1 fn = Inr rhs" and c': "c' = Append c (?stmt rhs)"
    unfolding placeSetExpr_def Let_def
    by (auto simp: andThen_eq_Inr)
  have 1: "(?stmt rhs env = Inr (next, env')) =
           (\<exists>obj e1 key e2 val e3 val' e3' e4.
                   Fun place env = Inr (obj, e1) \<and> mapkey e1 = Inr (key, e2) \<and>
                   rhs e2 = Inr (val, e3) \<and>
                   andThen (Value_Type val) (\<lambda>vt.
                     if vt \<noteq> Type place then Value_Convert lib e3 val (Type place)
                     else Inr (val, e3)) = Inr (val', e3') \<and>
                   SetMapIndex e3' obj key val' = Inr e4 \<and> advance e4 = Inr (next, env'))"
    for env "next" env'
    by (rule map_expr_stmt_returns)
  have 2: "Fun place env = Inl e \<longrightarrow> ?stmt rhs env = Inl e" for env e
    by (simp add: andThen_Inl)
  have 3: "Fun place env = Inr (obj, e1) \<and> mapkey e1 = Inl e \<longrightarrow> ?stmt rhs env = Inl e"
    for env obj e1 e
    by (simp add: andThen_Inl andThen_Inr)
  have 4: "Fun place env = Inr (obj, e1) \<and> mapkey e1 = Inr (key, e2) \<and> rhs e2 = Inl e \<longrightarrow>
             ?stmt rhs env = Inl e"
    for env obj e1 key e2 e
    by (simp add: andThen_Inl andThen_Inr)
  have cc: "CompCode c' = CompCode c @ [?stmt rhs]"
    by (simp add: c' Append_def)
  have main: "funAsX1 fn = Inr rhs \<and> CompCode c' = CompCode c @ [?stmt rhs] \<and>
          (\<forall>env.
             (\<forall>next env'.
                (?stmt rhs env = Inr (next, env')) =
                (\<exists>obj e1 key e2 val e3 val' e3' e4.
                   Fun place env = Inr (obj, e1) \<and> mapkey e1 = Inr (key, e2) \<and>
                   rhs e2 = Inr (val, e3) \<and>
                   andThen (Value_Type val) (\<lambda>vt.
                     if vt \<noteq> Type place then Value_Convert lib e3 val (Type place)
                     else Inr (val, e3)) = Inr (val', e3') \<and>
                   SetMapIndex e3' obj key val' = Inr e4 \<and> advance e4 = Inr (next, env'))) \<and>
             (\<forall>e. Fun place env = Inl e \<longrightarrow> ?stmt rhs env = Inl e) \<and>
             (\<forall>obj e1 e. Fun place env = Inr (obj, e1) \<and> mapkey e1 = Inl e \<longrightarrow>
                ?stmt rhs env = Inl e) \<and>
             (\<forall>obj e1 key e2 e.
                Fun place env = Inr (obj, e1) \<and> mapkey e1 = Inr (key, e2) \<and> rhs e2 = Inl e \<longrightarrow>
                ?stmt rhs env = Inl e))"
    by (intro conjI allI) (rule rhs cc 1 2 3 4)+
  show ?thesis
    by (rule exI [where x = rhs], rule exI [where x = "?stmt rhs"], rule main)
qed









lemmas examples =
  example_lib_def example_Convert_def logging_def map_place_def plain_place_def
  iface_place_def value_fun_def boxed_fun_def example_env_def example_comp_def



lemma last_Append: "last (CompCode (Append c stmt)) = stmt"
  by (simp add: Append_def)

text \<open>
  C1. For a map-indexed place the statement compiled by \<open>placeSetConst\<close> returns exactly
  when the container expression returns, the key expression returns in the environment
  the container expression left, the map store succeeds in the environment the key
  expression left, and the final step succeeds; for \<open>placeSetExpr\<close> the value
  expression comes third, evaluated in the environment the key expression left, and the
  store happens in the environment the value expression left (with the conversion of
  the value counted, when it is of another type). A panic of an earlier
  expression is the panic of the statement, whatever the later ones would do. This holds
  for every environment and for arbitrary expressions, side effects included.
\<close>

theorem map_assignment_evaluates_in_order:
  "MapKey place = Some mapkey \<longrightarrow>
     (placeSetConst lib c place val = Inr c' \<longrightarrow>
        (\<exists>v stmt.
          (if ValueType (ValueOf val) = None then Inr (Zero (Type place))
           else Convert lib (ValueOf val) (Type place)) = Inr v \<and>
          CompCode c' = CompCode c @ [stmt] \<and>
          (\<forall>env.
             (\<forall>next env'.
                (stmt env = Inr (next, env')) =
                (\<exists>obj e1 key e2 e3.
                   Fun place env = Inr (obj, e1) \<and> mapkey e1 = Inr (key, e2) \<and>
                   SetMapIndex e2 obj key v = Inr e3 \<and> advance e3 = Inr (next, env'))) \<and>
             (\<forall>e. Fun place env = Inl e \<longrightarrow> stmt env = Inl e) \<and>
             (\<forall>obj e1 e. Fun place env = Inr (obj, e1) \<and> mapkey e1 = Inl e \<longrightarrow>
                stmt env = Inl e)))) \<and>
     (placeSetExpr lib c place fn = Inr c' \<longrightarrow>
        (\<exists>rhs stmt.
          funAsX1 fn = Inr rhs \<and> CompCode c' = CompCode c @ [stmt] \<and>
          (\<forall>env.
             (\<forall>next env'.
                (stmt env = Inr (next, env')) =
                (\<exists>obj e1 key e2 val e3 val' e3' e4.
                   Fun place env = Inr (obj, e1) \<and> mapkey e1 = Inr (key, e2) \<and>
                   rhs e2 = Inr (val, e3) \<and>
                   andThen (Value_Type val) (\<lambda>vt.
                     if vt \<noteq> Type place then Value_Convert lib e3 val (Type place)
                     else Inr (val, e3)) = Inr (val', e3') \<and>
                   SetMapIndex e3' obj key val' = Inr e4 \<and> advance e4 = Inr (next, env'))) \<and>
             (\<forall>e. Fun place env = Inl e \<longrightarrow> stmt env = Inl e) \<and>
             (\<forall>obj e1 e. Fun place env = Inr (obj, e1) \<and> mapkey e1 = Inl e \<longrightarrow>
                stmt env = Inl e) \<and>
             (\<forall>obj e1 key e2 e.
                Fun place env = Inr (obj, e1) \<and> mapkey e1 = Inr (key, e2) \<and> rhs e2 = Inl e \<longrightarrow>
                stmt env = Inl e))))"
proof (intro impI conjI)
  assume "MapKey place = Some mapkey" and "placeSetConst lib c place val = Inr c'"
  then show "\<exists>v stmt.
          (if ValueType (ValueOf val) = None then Inr (Zero (Type place))
           else Convert lib (ValueOf val) (Type place)) = Inr v \<and>
          CompCode c' = CompCode c @ [stmt] \<and>
          (\<forall>env.
             (\<forall>next env'.
                (stmt env = Inr (next, env')) =
                (\<exists>obj e1 key e2 e3.
                   Fun place env = Inr (obj, e1) \<and> mapkey e1 = Inr (key, e2) \<and>
                   SetMapIndex e2 obj key v = Inr e3 \<and> advance e3 = Inr (next, env'))) \<and>
             (\<forall>e. Fun place env = Inl e \<longrightarrow> stmt env = Inl e) \<and>
             (\<forall>obj e1 e. Fun place env = Inr (obj, e1) \<and> mapkey e1 = Inl e \<longrightarrow>
                stmt env = Inl e))"
    by (rule map_const_order)
next
  assume "MapKey place = Some mapkey" and "placeSetExpr lib c place fn = Inr c'"
  then show "\<exists>rhs stmt.
          funAsX1 fn = Inr rhs \<and> CompCode c' = CompCode c @ [stmt] \<and>
          (\<forall>env.
             (\<forall>next env'.
                (stmt env = Inr (next, env')) =
                (\<exists>obj e1 key e2 val e3 val' e3' e4.
                   Fun place env = Inr (obj, e1) \<and> mapkey e1 = Inr (key, e2) \<and>
                   rhs e2 = Inr (val, e3) \<and>
                   andThen (Value_Type val) (\<lambda>vt.
                     if vt \<noteq> Type place then Value_Convert lib e3 val (Type place)
                     else Inr (val, e3)) = Inr (val', e3') \<and>
                   SetMapIndex e3' obj key val' = Inr e4 \<and> advance e4 = Inr (next, env'))) \<and>
             (\<forall>e. Fun place env = Inl e \<longrightarrow> stmt env = Inl e) \<and>
             (\<forall>obj e1 e. Fun place env = Inr (obj, e1) \<and> mapkey e1 = Inl e \<longrightarrow>
                stmt env = Inl e) \<and>
             (\<forall>obj e1 key e2 e.
                Fun place env = Inr (obj, e1) \<and> mapkey e1 = Inr (key, e2) \<and> rhs e2 = Inl e \<longrightarrow>
                stmt env = Inl e))"
    by (rule map_expr_order)
qed

theorem map_assignment_evaluates_in_order_witness:
  "(\<exists>c' next env'.
      placeSetExpr example_lib example_comp map_place value_fun = Inr c' \<and>
      last (CompCode c') example_env = Inr (next, env') \<and> next = 101 \<and> IP env' = 1 \<and>
      Heap env' 0 = Some (DString ''container;key;value;'') \<and>
      Maps env' 1 = Some [DString ''k'' \<mapsto> DInt 7]) \<and>
   (\<exists>c' next env'.
      placeSetConst example_lib example_comp map_place (I_value (RBasic Int') (DInt 300))
        = Inr c' \<and>
      last (CompCode c') example_env = Inr (next, env') \<and> next = 101 \<and> IP env' = 1 \<and>
      Heap env' 0 = Some (DString ''container;key;'') \<and>
      Maps env' 1 = Some [DString ''k'' \<mapsto> DInt 44])"
proof -
  let ?key = "logging ''key;'' (Val (RBasic String) (DString ''k'')) :: (nat, Value) Lazy"
  let ?k = "I_value (RBasic Int') (DInt 300)"
  have m: "MapKey map_place = Some ?key"
    by (simp add: map_place_def)
  have expr: "\<exists>c' next env'.
      placeSetExpr example_lib example_comp map_place value_fun = Inr c' \<and>
      last (CompCode c') example_env = Inr (next, env') \<and> next = 101 \<and> IP env' = 1 \<and>
      Heap env' 0 = Some (DString ''container;key;value;'') \<and>
      Maps env' 1 = Some [DString ''k'' \<mapsto> DInt 7]"
  proof -
    obtain c' where
      c: "placeSetExpr example_lib example_comp map_place value_fun = Inr c'"
      by (auto simp: placeSetExpr_def Let_def map_place_def value_fun_def andThen_Inr)
    note order = map_assignment_evaluates_in_order [where place = map_place and mapkey = ?key
        and lib = example_lib and c = example_comp and fn = value_fun and c' = c',
        THEN mp, OF m, THEN conjunct2, THEN mp, OF c]
    then obtain rhs stmt where
      all: "funAsX1 value_fun = Inr rhs \<and>
          CompCode c' = CompCode example_comp @ [stmt] \<and>
          (\<forall>env.
             (\<forall>next env'.
                (stmt env = Inr (next, env')) =
                (\<exists>obj e1 key e2 val e3 val' e3' e4.
                   Fun map_place env = Inr (obj, e1) \<and> ?key e1 = Inr (key, e2) \<and>
                   rhs e2 = Inr (val, e3) \<and>
                   andThen (Value_Type val) (\<lambda>vt.
                     if vt \<noteq> Type map_place
                     then Value_Convert example_lib e3 val (Type map_place)
                     else Inr (val, e3)) = Inr (val', e3') \<and>
                   SetMapIndex e3' obj key val' = Inr e4 \<and> advance e4 = Inr (next, env'))) \<and>
             (\<forall>e. Fun map_place env = Inl e \<longrightarrow> stmt env = Inl e) \<and>
             (\<forall>obj e1 e. Fun map_place env = Inr (obj, e1) \<and> ?key e1 = Inl e \<longrightarrow>
                stmt env = Inl e) \<and>
             (\<forall>obj e1 key e2 e.
                Fun map_place env = Inr (obj, e1) \<and> ?key e1 = Inr (key, e2) \<and>
                rhs e2 = Inl e \<longrightarrow>
                stmt env = Inl e))"
      by (elim exE) (erule that)
    note rhs = all [THEN conjunct1]
    note cc = all [THEN conjunct2, THEN conjunct1]
    note run = all [THEN conjunct2, THEN conjunct2, THEN spec, of example_env, THEN conjunct1,
        THEN spec, THEN spec]
    from rhs have r: "rhs = lift (\<lambda>i. Val (RBasic Int8) (DInt i)) (logging ''value;'' 7)"
      by (simp add: value_fun_def)
    have "\<exists>next env'. stmt example_env = Inr (next, env') \<and> next = 101 \<and> IP env' = 1 \<and>
       Heap env' 0 = Some (DString ''container;key;value;'') \<and>
       Maps env' 1 = Some [DString ''k'' \<mapsto> DInt 7]"
      unfolding run r
      by (simp add: examples lift_def andThen_def store_def SetMapIndex_def advance_def
            index_def Let_def)
    with c cc show ?thesis by (auto simp: example_comp_def)
  qed
  have const: "\<exists>c' next env'.
      placeSetConst example_lib example_comp map_place ?k = Inr c' \<and>
      last (CompCode c') example_env = Inr (next, env') \<and> next = 101 \<and> IP env' = 1 \<and>
      Heap env' 0 = Some (DString ''container;key;'') \<and>
      Maps env' 1 = Some [DString ''k'' \<mapsto> DInt 44]"
  proof -
    obtain c' where
      c: "placeSetConst example_lib example_comp map_place ?k = Inr c'"
      by (auto simp: placeSetConst_def Let_def examples Value_None_def andThen_Inr)
    note order = map_assignment_evaluates_in_order [where place = map_place and mapkey = ?key
        and lib = example_lib and c = example_comp and val = ?k and c' = c',
        THEN mp, OF m, THEN conjunct1, THEN mp, OF c]
    then obtain v stmt where
      all: "(if ValueType (ValueOf ?k) = None then Inr (Zero (Type map_place))
             else Convert example_lib (ValueOf ?k) (Type map_place)) = Inr v \<and>
          CompCode c' = CompCode example_comp @ [stmt] \<and>
          (\<forall>env.
             (\<forall>next env'.
                (stmt env = Inr (next, env')) =
                (\<exists>obj e1 key e2 e3.
                   Fun map_place env = Inr (obj, e1) \<and> ?key e1 = Inr (key, e2) \<and>
                   SetMapIndex e2 obj key v = Inr e3 \<and> advance e3 = Inr (next, env'))) \<and>
             (\<forall>e. Fun map_place env = Inl e \<longrightarrow> stmt env = Inl e) \<and>
             (\<forall>obj e1 e. Fun map_place env = Inr (obj, e1) \<and> ?key e1 = Inl e \<longrightarrow>
                stmt env = Inl e))"
      by (elim exE) (erule that)
    note cc = all [THEN conjunct2, THEN conjunct1]
    note run = all [THEN conjunct2, THEN conjunct2, THEN spec, of example_env, THEN conjunct1,
        THEN spec, THEN spec]
    from all [THEN conjunct1] have v: "v = Val (RBasic Int8) (DInt 44)"
      by (simp add: examples Value_None_def wrap_int_def)
    have "\<exists>next env'. stmt example_env = Inr (next, env') \<and> next = 101 \<and> IP env' = 1 \<and>
       Heap env' 0 = Some (DString ''container;key;'') \<and>
       Maps env' 1 = Some [DString ''k'' \<mapsto> DInt 44]"
      unfolding run v
      by (simp add: examples andThen_def store_def SetMapIndex_def advance_def
            index_def Let_def)
    with c cc show ?thesis by (auto simp: example_comp_def)
  qed
  from expr const show ?thesis by (rule conjI)
qed

text \<open>
  C8. \<open>placeSetConst\<close> converts the constant when it compiles, exactly once: a
  conversion that panics makes the compilation panic; the compiled code depends on
  \<open>Convert\<close> only through the one converted constant (two libraries that agree on it,
  and on \<open>float32\<close>, compile the same statement); a compilation that succeeds has
  called \<open>Convert\<close> once, and not at all for a nil-like constant; and whenever the
  compiled statement returns, it has called \<open>Convert\<close> as many times as the
  expressions of the place have, so none of its own. A nil-like constant
  is replaced by the zero value of the static type. When the value so obtained is a
  proper value of the static type, as the zero value is, the compilation succeeds; the
  statement of a plain place, run where the place is an addressable location of that
  type, stores exactly this value there and goes on, and the statement of a map-indexed
  place stores it under the key. This covers every category of the static type: the
  basic kinds, and every other kind (a location of interface type among them), where
  the value is stored whatever its payload is.
\<close>

theorem constant_converted_when_compiled:
  "(ValueType (ValueOf val) \<noteq> None \<and> Convert lib (ValueOf val) (Type place) = Inl e \<longrightarrow>
      placeSetConst lib c place val = Inl e) \<and>
   (float32 lib' = float32 lib \<and>
      (ValueType (ValueOf val) \<noteq> None \<longrightarrow>
         Convert lib' (ValueOf val) (Type place) = Convert lib (ValueOf val) (Type place)) \<longrightarrow>
      placeSetConst lib' c place val = placeSetConst lib c place val) \<and>
   (placeSetConst lib c place val = Inr c' \<longrightarrow>
      CompConversions c' =
        CompConversions c + (if ValueType (ValueOf val) = None then 0 else 1) \<and>
      (\<exists>stmt. CompCode c' = CompCode c @ [stmt] \<and>
         (\<forall>env next env'. stmt env = Inr (next, env') \<longrightarrow>
            (\<exists>obj e1. Fun place env = Inr (obj, e1) \<and>
               (case MapKey place of
                  None \<Rightarrow> Conversions env' = Conversions e1
                | Some mapkey \<Rightarrow>
                    (\<exists>key e2. mapkey e1 = Inr (key, e2) \<and>
                       Conversions env' = Conversions e2)))))) \<and>
   ((if ValueType (ValueOf val) = None then Inr (Zero (Type place))
     else Convert lib (ValueOf val) (Type place)) = Inr v \<and>
    proper lib (Type place) v \<longrightarrow>
      (\<exists>stmt. placeSetConst lib c place val =
           Inr (Append (if ValueType (ValueOf val) = None then c else converted c) stmt) \<and>
         (MapKey place = None \<longrightarrow>
            (\<forall>env a e1. Fun place env = Inr (Ref (Type place) a, e1) \<longrightarrow>
               stmt env = advance (store e1 a (Value_data v)) \<and>
               (\<forall>next env'. stmt env = Inr (next, env') \<longrightarrow>
                  Heap env' a = Some (Value_data v)))) \<and>
         (\<forall>mapkey. MapKey place = Some mapkey \<longrightarrow>
            (\<forall>env kt m e1 kd e2 entries.
               Fun place env = Inr (Val (RMap kt (Type place)) (DMap m), e1) \<and>
               mapkey e1 = Inr (Val kt kd, e2) \<and> Maps e2 m = Some entries \<longrightarrow>
               stmt env =
                 advance (e2\<lparr>Maps := (Maps e2)(m \<mapsto> entries(kd \<mapsto> Value_data v))\<rparr>))))) \<and>
   (float32 lib 0 = 0 \<longrightarrow> proper lib (Type place) (Zero (Type place))) \<and>
   (reflect_Kind_of (Type place) \<notin> basic_kinds \<longrightarrow>
      proper lib (Type place) (Val (Type place) d))"
proof (intro conjI impI)
  assume "ValueType (ValueOf val) \<noteq> None \<and> Convert lib (ValueOf val) (Type place) = Inl e"
  then show "placeSetConst lib c place val = Inl e"
    using placeSetConst_conversion_panics by blast
next
  assume "float32 lib' = float32 lib \<and>
      (ValueType (ValueOf val) \<noteq> None \<longrightarrow>
         Convert lib' (ValueOf val) (Type place) = Convert lib (ValueOf val) (Type place))"
  then show "placeSetConst lib' c place val = placeSetConst lib c place val"
    using placeSetConst_staged by blast
next
  assume "placeSetConst lib c place val = Inr c'"
  then show "CompConversions c' =
        CompConversions c + (if ValueType (ValueOf val) = None then 0 else 1)"
    by (rule placeSetConst_counts)
next
  assume "placeSetConst lib c place val = Inr c'"
  then show "\<exists>stmt. CompCode c' = CompCode c @ [stmt] \<and>
         (\<forall>env next env'. stmt env = Inr (next, env') \<longrightarrow>
            (\<exists>obj e1. Fun place env = Inr (obj, e1) \<and>
               (case MapKey place of
                  None \<Rightarrow> Conversions env' = Conversions e1
                | Some mapkey \<Rightarrow>
                    (\<exists>key e2. mapkey e1 = Inr (key, e2) \<and>
                       Conversions env' = Conversions e2))))"
    by (rule placeSetConst_converts_nothing)
next
  assume h: "(if ValueType (ValueOf val) = None then Inr (Zero (Type place))
     else Convert lib (ValueOf val) (Type place)) = Inr v \<and>
    proper lib (Type place) v"
  then have h1: "(if ValueType (ValueOf val) = None then Inr (Zero (Type place))
     else Convert lib (ValueOf val) (Type place)) = Inr v"
    and h2: "proper lib (Type place) v"
    by simp_all
  show "\<exists>stmt. placeSetConst lib c place val =
           Inr (Append (if ValueType (ValueOf val) = None then c else converted c) stmt) \<and>
         (MapKey place = None \<longrightarrow>
            (\<forall>env a e1. Fun place env = Inr (Ref (Type place) a, e1) \<longrightarrow>
               stmt env = advance (store e1 a (Value_data v)) \<and>
               (\<forall>next env'. stmt env = Inr (next, env') \<longrightarrow>
                  Heap env' a = Some (Value_data v)))) \<and>
         (\<forall>mapkey. MapKey place = Some mapkey \<longrightarrow>
            (\<forall>env kt m e1 kd e2 entries.
               Fun place env = Inr (Val (RMap kt (Type place)) (DMap m), e1) \<and>
               mapkey e1 = Inr (Val kt kd, e2) \<and> Maps e2 m = Some entries \<longrightarrow>
               stmt env =
                 advance (e2\<lparr>Maps := (Maps e2)(m \<mapsto> entries(kd \<mapsto> Value_data v))\<rparr>)))"
    by (rule placeSetConst_proper [OF h1 h2])
next
  assume "float32 lib 0 = 0"
  then show "proper lib (Type place) (Zero (Type place))"
    by (rule Zero_proper)
next
  assume "reflect_Kind_of (Type place) \<notin> basic_kinds"
  then show "proper lib (Type place) (Val (Type place) d)"
    by (simp add: fits_def)
qed

theorem constant_converted_when_compiled_witness:
  "placeSetConst example_lib example_comp plain_place (I_value (RBasic String) (DString ''x''))
     = Inl (ReflectPanic ''reflect.Value.Convert: value cannot be converted'') \<and>
   placeSetConst
     (example_lib\<lparr>Convert := \<lambda>v t. Inr (Val (RBasic Int8) (DInt 44))\<rparr>)
     example_comp plain_place (I_value (RBasic Int') (DInt 300)) =
   placeSetConst example_lib example_comp plain_place (I_value (RBasic Int') (DInt 300)) \<and>
   (\<exists>c' env'.
      placeSetConst example_lib example_comp plain_place (I_value (RBasic Int') (DInt 300))
        = Inr c' \<and> CompConversions c' = 1 \<and>
      last (CompCode c') example_env = Inr (101, env') \<and> Heap env' 2 = Some (DInt 44) \<and>
      Conversions env' = 0) \<and>
   (\<exists>c' env'.
      placeSetConst example_lib example_comp plain_place I_nil = Inr c' \<and>
      CompConversions c' = 0 \<and>
      last (CompCode c') (store example_env 2 (DInt 5)) = Inr (101, env') \<and>
      Heap env' 2 = Some (DInt 0)) \<and>
   (\<exists>c' env'.
      placeSetConst example_lib example_comp map_place (I_value (RBasic Int') (DInt 300))
        = Inr c' \<and>
      last (CompCode c') example_env = Inr (101, env') \<and>
      Maps env' 1 = Some [DString ''k'' \<mapsto> DInt 44]) \<and>
   (\<exists>c' env'.
      placeSetConst example_lib example_comp iface_place (I_value (RBasic Int') (DInt 42))
        = Inr c' \<and> CompConversions c' = 1 \<and>
      last (CompCode c') example_env = Inr (101, env') \<and> Heap env' 3 = Some (DInt 42) \<and>
      Conversions env' = 0)"
proof -
  let ?c = "example_comp"
  let ?k = "I_value (RBasic Int') (DInt 300)"
  let ?j = "I_value (RBasic Int') (DInt 42)"
  let ?lib' = "example_lib\<lparr>Convert := \<lambda>v t. Inr (Val (RBasic Int8) (DInt 44))\<rparr>"
  let ?key = "logging ''key;'' (Val (RBasic String) (DString ''k'')) :: (nat, Value) Lazy"
  have conv: "Convert example_lib (ValueOf ?k) (RBasic Int8) = Inr (Val (RBasic Int8) (DInt 44))"
    "Convert example_lib (ValueOf ?j) (RInterface []) = Inr (Val (RInterface []) (DInt 42))"
    by (simp_all add: example_lib_def example_Convert_def wrap_int_def)
  have t: "Type plain_place = RBasic Int8" "Type map_place = RBasic Int8"
    "MapKey plain_place = None" "MapKey map_place = Some ?key"
    "Type iface_place = RInterface []" "MapKey iface_place = None"
    by (simp_all add: plain_place_def map_place_def iface_place_def)
  have a: "placeSetConst example_lib ?c plain_place (I_value (RBasic String) (DString ''x''))
     = Inl (ReflectPanic ''reflect.Value.Convert: value cannot be converted'')"
    using constant_converted_when_compiled [where val = "I_value (RBasic String) (DString ''x'')" and lib = example_lib
        and place = plain_place and c = ?c
        and e = "ReflectPanic ''reflect.Value.Convert: value cannot be converted''",
        THEN conjunct1]
    by (simp add: t Value_None_def example_lib_def example_Convert_def)
  have b: "placeSetConst ?lib' ?c plain_place ?k = placeSetConst example_lib ?c plain_place ?k"
    using constant_converted_when_compiled [where val = ?k and lib = example_lib and lib' = ?lib'
        and place = plain_place and c = ?c, THEN conjunct2, THEN conjunct1] conv
    by (simp add: t)
  have p: "proper example_lib (RBasic Int8) (Val (RBasic Int8) (DInt 44))"
    "proper example_lib (RBasic Int8) (Zero (RBasic Int8))"
    using constant_converted_when_compiled [where lib = example_lib and place = plain_place,
        THEN conjunct2, THEN conjunct2, THEN conjunct2, THEN conjunct2, THEN conjunct1]
    by (simp_all add: wrap_int_def t example_lib_def fits_def)
  have q: "proper example_lib (RInterface []) (Val (RInterface []) (DInt 42))"
    using constant_converted_when_compiled [where lib = example_lib and place = iface_place
        and d = "DInt 42",
        THEN conjunct2, THEN conjunct2, THEN conjunct2, THEN conjunct2, THEN conjunct2]
    by (simp add: t basic_kinds_def)
  have h1: "(if ValueType (ValueOf ?k) = None then Inr (Zero (Type plain_place))
             else Convert example_lib (ValueOf ?k) (Type plain_place))
            = Inr (Val (RBasic Int8) (DInt 44)) \<and>
            proper example_lib (Type plain_place) (Val (RBasic Int8) (DInt 44))"
    using conv p by (simp add: t Value_None_def)
  have h2: "(if ValueType (ValueOf I_nil) = None then Inr (Zero (Type plain_place))
             else Convert example_lib (ValueOf I_nil) (Type plain_place))
            = Inr (Zero (RBasic Int8)) \<and>
            proper example_lib (Type plain_place) (Zero (RBasic Int8))"
    using p by (simp add: t)
  have h3: "(if ValueType (ValueOf ?k) = None then Inr (Zero (Type map_place))
             else Convert example_lib (ValueOf ?k) (Type map_place))
            = Inr (Val (RBasic Int8) (DInt 44)) \<and>
            proper example_lib (Type map_place) (Val (RBasic Int8) (DInt 44))"
    using conv p by (simp add: t Value_None_def)
  have h4: "(if ValueType (ValueOf ?j) = None then Inr (Zero (Type iface_place))
             else Convert example_lib (ValueOf ?j) (Type iface_place))
            = Inr (Val (RInterface []) (DInt 42)) \<and>
            proper example_lib (Type iface_place) (Val (RInterface []) (DInt 42))"
    using conv q by (simp add: t Value_None_def)
  note e1 = constant_converted_when_compiled [where val = ?k and lib = example_lib and place = plain_place and c = ?c
      and v = "Val (RBasic Int8) (DInt 44)",
      THEN conjunct2, THEN conjunct2, THEN conjunct2, THEN conjunct1, THEN mp, OF h1]
  note e2 = constant_converted_when_compiled [where val = I_nil and lib = example_lib and place = plain_place and c = ?c
      and v = "Zero (RBasic Int8)",
      THEN conjunct2, THEN conjunct2, THEN conjunct2, THEN conjunct1, THEN mp, OF h2]
  note e3 = constant_converted_when_compiled [where val = ?k and lib = example_lib and place = map_place and c = ?c
      and v = "Val (RBasic Int8) (DInt 44)",
      THEN conjunct2, THEN conjunct2, THEN conjunct2, THEN conjunct1, THEN mp, OF h3]
  note e4 = constant_converted_when_compiled [where val = ?j and lib = example_lib and place = iface_place and c = ?c
      and v = "Val (RInterface []) (DInt 42)",
      THEN conjunct2, THEN conjunct2, THEN conjunct2, THEN conjunct1, THEN mp, OF h4]
  note count = constant_converted_when_compiled [where lib = example_lib and c = ?c,
      THEN conjunct2, THEN conjunct2, THEN conjunct1, THEN mp, THEN conjunct1]
  have c: "\<exists>c' env'. placeSetConst example_lib ?c plain_place ?k = Inr c' \<and>
      CompConversions c' = 1 \<and>
      last (CompCode c') example_env = Inr (101, env') \<and> Heap env' 2 = Some (DInt 44) \<and>
      Conversions env' = 0"
  proof -
    from e1 obtain s where
      s: "placeSetConst example_lib ?c plain_place ?k =
            Inr (Append (if ValueType (ValueOf ?k) = None then ?c else converted ?c) s)"
      and r: "MapKey plain_place = None \<longrightarrow>
            (\<forall>env a e1. Fun plain_place env = Inr (Ref (Type plain_place) a, e1) \<longrightarrow>
               s env = advance (store e1 a (Value_data (Val (RBasic Int8) (DInt 44)))) \<and>
               (\<forall>next env'. s env = Inr (next, env') \<longrightarrow>
                  Heap env' a = Some (Value_data (Val (RBasic Int8) (DInt 44)))))"
      by (elim exE conjE) (erule that)
    from count [OF s] have n: "CompConversions
        (Append (if ValueType (ValueOf ?k) = None then ?c else converted ?c) s) = 1"
      by (simp add: Value_None_def example_comp_def)
    from r have "s example_env = advance (store example_env 2 (DInt 44))"
      by (simp add: plain_place_def)
    then have "\<exists>env'. s example_env = Inr (101, env') \<and> Heap env' 2 = Some (DInt 44) \<and>
        Conversions env' = 0"
      by (simp add: advance_def store_def example_env_def index_def andThen_def)
    with s n show ?thesis
      by (auto simp: last_Append)
  qed
  have d: "\<exists>c' env'. placeSetConst example_lib ?c plain_place I_nil = Inr c' \<and>
      CompConversions c' = 0 \<and>
      last (CompCode c') (store example_env 2 (DInt 5)) = Inr (101, env') \<and>
      Heap env' 2 = Some (DInt 0)"
  proof -
    from e2 obtain s where
      s: "placeSetConst example_lib ?c plain_place I_nil =
            Inr (Append (if ValueType (ValueOf I_nil) = None then ?c else converted ?c) s)"
      and r: "MapKey plain_place = None \<longrightarrow>
            (\<forall>env a e1. Fun plain_place env = Inr (Ref (Type plain_place) a, e1) \<longrightarrow>
               s env = advance (store e1 a (Value_data (Zero (RBasic Int8)))) \<and>
               (\<forall>next env'. s env = Inr (next, env') \<longrightarrow>
                  Heap env' a = Some (Value_data (Zero (RBasic Int8)))))"
      by (elim exE conjE) (erule that)
    from count [OF s] have n: "CompConversions
        (Append (if ValueType (ValueOf I_nil) = None then ?c else converted ?c) s) = 0"
      by (simp add: example_comp_def)
    from r have "s (store example_env 2 (DInt 5)) =
        advance (store (store example_env 2 (DInt 5)) 2 (DInt 0))"
      by (simp add: plain_place_def Zero_def)
    then have "\<exists>env'. s (store example_env 2 (DInt 5)) = Inr (101, env') \<and>
        Heap env' 2 = Some (DInt 0)"
      by (simp add: advance_def store_def example_env_def index_def andThen_def)
    with s n show ?thesis
      by (auto simp: last_Append)
  qed
  have f: "\<exists>c' env'. placeSetConst example_lib ?c map_place ?k = Inr c' \<and>
      last (CompCode c') example_env = Inr (101, env') \<and>
      Maps env' 1 = Some [DString ''k'' \<mapsto> DInt 44]"
  proof -
    from e3 obtain s where
      s: "placeSetConst example_lib ?c map_place ?k =
            Inr (Append (if ValueType (ValueOf ?k) = None then ?c else converted ?c) s)"
      and r: "\<forall>mapkey. MapKey map_place = Some mapkey \<longrightarrow>
            (\<forall>env kt m e1 kd e2 entries.
               Fun map_place env = Inr (Val (RMap kt (Type map_place)) (DMap m), e1) \<and>
               mapkey e1 = Inr (Val kt kd, e2) \<and> Maps e2 m = Some entries \<longrightarrow>
               s env =
                 advance (e2\<lparr>Maps := (Maps e2)(m \<mapsto>
                   entries(kd \<mapsto> Value_data (Val (RBasic Int8) (DInt 44))))\<rparr>))"
      by (elim exE conjE) (erule that)
    let ?e1 = "store example_env 0 (DString ''container;'')"
    let ?e2 = "store ?e1 0 (DString ''container;key;'')"
    have "Fun map_place example_env =
            Inr (Val (RMap (RBasic String) (Type map_place)) (DMap 1), ?e1) \<and>
          ?key ?e1 = Inr (Val (RBasic String) (DString ''k''), ?e2) \<and>
          Maps ?e2 1 = Some Map.empty"
      by (simp add: map_place_def logging_def example_env_def store_def)
    with r t(4) have "s example_env =
        advance (?e2\<lparr>Maps := (Maps ?e2)(1 \<mapsto>
          Map.empty(DString ''k'' \<mapsto> Value_data (Val (RBasic Int8) (DInt 44))))\<rparr>)"
      by blast
    then have "\<exists>env'. s example_env = Inr (101, env') \<and>
        Maps env' 1 = Some [DString ''k'' \<mapsto> DInt 44]"
      by (simp add: advance_def store_def example_env_def index_def andThen_def)
    with s show ?thesis
      by (auto simp: last_Append)
  qed
  have g: "\<exists>c' env'. placeSetConst example_lib ?c iface_place ?j = Inr c' \<and>
      CompConversions c' = 1 \<and>
      last (CompCode c') example_env = Inr (101, env') \<and> Heap env' 3 = Some (DInt 42) \<and>
      Conversions env' = 0"
  proof -
    from e4 obtain s where
      s: "placeSetConst example_lib ?c iface_place ?j =
            Inr (Append (if ValueType (ValueOf ?j) = None then ?c else converted ?c) s)"
      and r: "MapKey iface_place = None \<longrightarrow>
            (\<forall>env a e1. Fun iface_place env = Inr (Ref (Type iface_place) a, e1) \<longrightarrow>
               s env = advance (store e1 a (Value_data (Val (RInterface []) (DInt 42)))) \<and>
               (\<forall>next env'. s env = Inr (next, env') \<longrightarrow>
                  Heap env' a = Some (Value_data (Val (RInterface []) (DInt 42)))))"
      by (elim exE conjE) (erule that)
    from count [OF s] have n: "CompConversions
        (Append (if ValueType (ValueOf ?j) = None then ?c else converted ?c) s) = 1"
      by (simp add: Value_None_def example_comp_def)
    from r have "s example_env = advance (store example_env 3 (DInt 42))"
      by (simp add: iface_place_def)
    then have "\<exists>env'. s example_env = Inr (101, env') \<and> Heap env' 3 = Some (DInt 42) \<and>
        Conversions env' = 0"
      by (simp add: advance_def store_def example_env_def index_def andThen_def)
    with s n show ?thesis
      by (auto simp: last_Append)
  qed
  show ?thesis
    using a b c d f g by blast
qed



end
